theory Spec2Isabelle
  imports Main "HOL-Library.Multiset" "HOL-Library.Product_Lexorder"
begin

section \<open>Data model of \<^verbatim>\<open>src/server.ts\<close>\<close>

text \<open>
  Instants. A \<^verbatim>\<open>Date\<close> is its time value, the number of milliseconds since the epoch;
  a column holds the text \<^verbatim>\<open>toISOString()\<close> makes of it, which determines the time value
  and is determined by it, so a column is modelled by the time value. The order SQLite
  puts on these texts is \<open>iso_key\<close> below.
\<close>

type_synonym instant = int

datatype status = Pending | Posted | Failed

text \<open>
  The platform. The type \<^verbatim>\<open>'twitter' | 'linkedin' | 'instagram'\<close> is gone at run time
  and the routes hand the request body on unchecked, so a platform is the text the
  column \<^verbatim>\<open>platform TEXT\<close> holds; the three names of the type are the three literals.
\<close>

type_synonym platform = string

abbreviation Twitter :: platform where "Twitter \<equiv> ''twitter''"

abbreviation Linkedin :: platform where "Linkedin \<equiv> ''linkedin''"

abbreviation Instagram :: platform where "Instagram \<equiv> ''instagram''"

text \<open>
  \<^verbatim>\<open>interface ScheduledPost\<close>: the in-memory copy of an item. The optional fields of the
  interface are options. The field \<^verbatim>\<open>id\<close> is \<open>sp_id\<close>; every field carries the prefix
  \<open>sp_\<close> to keep it apart from the column of the same name.
\<close>

record ScheduledPost =
  sp_id :: string
  sp_content :: string
  sp_scheduledFor :: instant
  sp_status :: status
  sp_createdAt :: instant
  sp_platform :: platform
  sp_tags :: "string list option"
  sp_retry_count :: "int option"
  sp_publishedAt :: "instant option"
  sp_errorMessage :: "string option"

text \<open>
  \<^verbatim>\<open>interface PostRequest\<close>, as the routes pass it: the JSON body of the request,
  unchecked. The value of \<^verbatim>\<open>scheduledFor\<close> is represented by what \<^verbatim>\<open>new Date(value)\<close>
  makes of it: a time value, or an Invalid Date; an absent or falsy value is \<open>None\<close>.
\<close>

datatype date_text = ParsesTo instant | InvalidDate

text \<open>
  A field of the body that the code reads as a string: it is absent or \<^verbatim>\<open>null\<close>, or a
  string, or another JSON value. Of another value the model keeps what the code makes of
  it: the text the \<^verbatim>\<open>TEXT\<close> column stores for it, and whether it has a method \<^verbatim>\<open>slice\<close>
  (an array has, a number, a boolean and an object have not). The tags are kept as the
  interface types them; nothing below depends on them.
\<close>

datatype body_value = Missing | Text string | NotText string bool

record PostRequest =
  req_content :: body_value
  req_scheduledFor :: "date_text option"
  req_platform :: body_value
  req_tags :: "string list option"

text \<open>
  A row of table \<^verbatim>\<open>posts\<close> (columns of \<^verbatim>\<open>createTables\<close>, prefix \<open>p_\<close>). The nullable
  columns are options; \<^verbatim>\<open>tags\<close> holds the JSON text of a string array, represented by
  the array.
\<close>

record posts_row =
  p_id :: string
  p_content :: string
  p_scheduled_for :: instant
  p_status :: status
  p_created_at :: instant
  p_platform :: platform
  p_tags :: "string list option"
  p_published_at :: "instant option"
  p_error_message :: "string option"
  p_retry_count :: "int option"

text \<open>
  The JSON payload of an event, one constructor per shape the listeners write:
  \<^verbatim>\<open>{ scheduledFor }\<close>, \<^verbatim>\<open>{ attempt }\<close> and \<^verbatim>\<open>{ error: error.message }\<close> (the message may be
  undefined).
\<close>

datatype event_data =
    ScheduledForData instant
  | AttemptData int
  | ErrorData "string option"

text \<open>A row of table \<^verbatim>\<open>post_analytics\<close> (prefix \<open>a_\<close>).\<close>

record analytics_row =
  a_id :: int
  a_post_id :: string
  a_event_type :: string
  a_event_data :: "event_data option"
  a_created_at :: instant

text \<open>The two tables, each in row order.\<close>

record database =
  posts :: "posts_row list"
  post_analytics :: "analytics_row list"

text \<open>
  \<^verbatim>\<open>class PostScheduler\<close>: the database handle, \<^verbatim>\<open>null\<close> until \<^verbatim>\<open>initDatabase\<close> has
  opened the file, and the timers set by \<^verbatim>\<open>setTimeout\<close> that have not fired yet, each
  with the instant from which it may fire and the item its callback publishes.
\<close>

record PostScheduler =
  db :: "database option"
  timers :: "(instant \<times> ScheduledPost) list"

text \<open>What a call can throw.\<close>

datatype error =
    DatabaseNotInitialised
  | RangeError
  | SqliteConstraint
  | TypeError

text \<open>
  The outcome of \<^verbatim>\<open>twitterClient.v2.tweet\<close>, the external collaborator: it resolves, or it
  rejects with an error whose \<^verbatim>\<open>message\<close> may be undefined.
\<close>

datatype tweet_outcome = TweetOk | TweetError "string option"

section \<open>The order of the stored times\<close>

text \<open>
  \<^verbatim>\<open>Day(t)\<close> and \<^verbatim>\<open>YearFromTime(t)\<close> of ECMAScript: the day number of a time value and its
  year in the proleptic Gregorian calendar, with a year 0 and negative years before it.
  The year is computed from the day number by eras of 400 years (146097 days) that begin
  on 1 March: \<open>doe\<close> is the day of the era, \<open>yoe\<close> the year of the era, \<open>doy\<close> the day of
  that year, and the days from 306 on are January and February of the next calendar
  year.
\<close>

definition Day :: "instant \<Rightarrow> int" where
  "Day t = t div 86400000"

definition YearFromTime :: "instant \<Rightarrow> int" where
  "YearFromTime t =
     (let z = Day t + 719468;
          era = z div 146097;
          doe = z mod 146097;
          yoe = (doe - doe div 1460 + doe div 36524 - doe div 146096) div 365;
          doy = doe - (365 * yoe + yoe div 4 - yoe div 100)
      in yoe + era * 400 + (if 306 \<le> doy then 1 else 0))"

text \<open>
  The times whose ISO text has the short form \<^verbatim>\<open>YYYY-MM-DDTHH:mm:ss.sssZ\<close>: the years
  0000 to 9999, from \<^verbatim>\<open>0000-01-01T00:00:00.000Z\<close> (time value -62167219200000) up to,
  not including, \<^verbatim>\<open>+010000-01-01T00:00:00.000Z\<close> (time value 253402300800000).
\<close>

definition four_digit_year :: "instant \<Rightarrow> bool" where
  "four_digit_year t = (- 62167219200000 \<le> t \<and> t < 253402300800000)"

text \<open>
  The columns \<^verbatim>\<open>scheduled_for\<close> and \<^verbatim>\<open>created_at\<close> hold ISO texts, and SQLite compares
  texts byte by byte. \<^verbatim>\<open>toISOString\<close> writes a year from 10000 on as \<^verbatim>\<open>+YYYYYY\<close> and a
  year before 0 as \<^verbatim>\<open>-YYYYYY\<close> with the absolute value of the year; all fields have a
  fixed width. Since \<^verbatim>\<open>+\<close> comes before \<^verbatim>\<open>-\<close> and \<^verbatim>\<open>-\<close> before the digits, the texts of the
  years from 10000 on come first, in the order of time; then the texts of the negative
  years, a year nearer to 0 before a year farther from it and in the order of time
  within one year; then the texts of the years 0000 to 9999, in the order of time.
  \<open>iso_key\<close> maps a time value to a triple that is ordered (lexicographically) as its
  text is.
\<close>

definition iso_key :: "instant \<Rightarrow> int \<times> int \<times> int" where
  "iso_key t =
     (if 253402300800000 \<le> t then (0, 0, t)
      else if t < - 62167219200000 then (1, - YearFromTime t, t)
      else (2, 0, t))"

section \<open>Construction\<close>

definition constructor :: PostScheduler where
  "constructor = \<lparr>db = None, timers = []\<rparr>"

definition createTables :: database where
  "createTables = \<lparr>posts = [], post_analytics = []\<rparr>"

text \<open>
  \<^verbatim>\<open>initDatabase\<close> opens the database file; \<open>file\<close> is what the file holds
  (\<open>createTables\<close> for a new file: the tables are created only if they do not exist).
\<close>

definition initDatabase :: "database \<Rightarrow> PostScheduler \<Rightarrow> PostScheduler" where
  "initDatabase file s = s\<lparr>db := Some file\<rparr>"

section \<open>Store operations\<close>

text \<open>
  The next \<^verbatim>\<open>AUTOINCREMENT\<close> key of \<^verbatim>\<open>post_analytics\<close>: one more than the largest key
  the table has had, which is the largest it holds, since no row of this table is ever
  deleted; 1 for the empty table.
\<close>

definition next_id :: "analytics_row list \<Rightarrow> int" where
  "next_id rows = fold (\<lambda>a m. max (a_id a) m) rows 0 + 1"

text \<open>
  \<^verbatim>\<open>logAnalytics\<close>: one \<^verbatim>\<open>INSERT INTO post_analytics\<close>; \<^verbatim>\<open>created_at\<close> is the clock of
  the database. SQLite does not enforce the foreign key (the pragma is never switched
  on), so the insert does not depend on table \<^verbatim>\<open>posts\<close>.
\<close>

definition logAnalytics ::
  "instant \<Rightarrow> string \<Rightarrow> string \<Rightarrow> event_data option \<Rightarrow> PostScheduler \<Rightarrow> PostScheduler" where
  "logAnalytics now postId eventType eventData s =
     (case db s of
        None \<Rightarrow> s
      | Some d \<Rightarrow>
          s\<lparr>db := Some (d\<lparr>post_analytics := post_analytics d @
               [\<lparr>a_id = next_id (post_analytics d),
                 a_post_id = postId,
                 a_event_type = eventType,
                 a_event_data = eventData,
                 a_created_at = now\<rparr>]\<rparr>)\<rparr>)"

text \<open>
  \<^verbatim>\<open>updatePostStatus\<close>: one \<^verbatim>\<open>UPDATE posts SET ... WHERE id = ?\<close>. An argument that is
  not passed (\<^verbatim>\<open>undefined\<close>) is \<open>None\<close> and leaves its column alone; \<^verbatim>\<open>null\<close> is
  \<open>Some None\<close>. \<^verbatim>\<open>retry_count + 1\<close> of a NULL is NULL.
\<close>

definition set_row ::
  "status \<Rightarrow> string option option \<Rightarrow> instant option option \<Rightarrow> posts_row \<Rightarrow> posts_row" where
  "set_row st errorMessage publishedAt r =
     r\<lparr>p_status := st,
       p_error_message := (case errorMessage of None \<Rightarrow> p_error_message r | Some e \<Rightarrow> e),
       p_published_at := (case publishedAt of None \<Rightarrow> p_published_at r | Some t \<Rightarrow> t),
       p_retry_count := (if st = Failed then map_option (\<lambda>n. n + 1) (p_retry_count r)
                         else p_retry_count r)\<rparr>"

definition updatePostStatus ::
  "string \<Rightarrow> status \<Rightarrow> string option option \<Rightarrow> instant option option \<Rightarrow>
   PostScheduler \<Rightarrow> PostScheduler" where
  "updatePostStatus postId st errorMessage publishedAt s =
     (case db s of
        None \<Rightarrow> s
      | Some d \<Rightarrow>
          s\<lparr>db := Some (d\<lparr>posts :=
               map (\<lambda>r. if p_id r = postId then set_row st errorMessage publishedAt r else r)
                 (posts d)\<rparr>)\<rparr>)"

definition handleFailedPost :: "string \<Rightarrow> string \<Rightarrow> PostScheduler \<Rightarrow> PostScheduler" where
  "handleFailedPost postId errorMessage s =
     updatePostStatus postId Failed (Some (Some errorMessage)) None s"

text \<open>
  \<^verbatim>\<open>getPostById\<close>: the first row with the key, mapped to the interface. A NULL
  \<^verbatim>\<open>published_at\<close> becomes undefined.
\<close>

definition row_to_post :: "posts_row \<Rightarrow> ScheduledPost" where
  "row_to_post r =
     \<lparr>sp_id = p_id r,
      sp_content = p_content r,
      sp_scheduledFor = p_scheduled_for r,
      sp_status = p_status r,
      sp_createdAt = p_created_at r,
      sp_platform = p_platform r,
      sp_tags = p_tags r,
      sp_retry_count = p_retry_count r,
      sp_publishedAt = p_published_at r,
      sp_errorMessage = p_error_message r\<rparr>"

definition getPostById :: "PostScheduler \<Rightarrow> string \<Rightarrow> ScheduledPost option" where
  "getPostById s i =
     (case db s of
        None \<Rightarrow> None
      | Some d \<Rightarrow> map_option row_to_post (find (\<lambda>r. p_id r = i) (posts d)))"

section \<open>The event listeners\<close>

text \<open>
  The four signals of \<^verbatim>\<open>setupEventListeners\<close>. \<^verbatim>\<open>emit\<close> runs the listener of the signal
  at once; the store updates a listener starts are taken in the order it starts them.
\<close>

datatype event =
    PostScheduled ScheduledPost
  | PostPublished ScheduledPost
  | PostFailed ScheduledPost "string option"
  | PostRetrying ScheduledPost int

text \<open>\<^verbatim>\<open>error.message || 'Erro desconhecido'\<close>: an undefined or empty message is falsy.\<close>

definition message_or_default :: "string option \<Rightarrow> string" where
  "message_or_default m =
     (case m of
        None \<Rightarrow> ''Erro desconhecido''
      | Some t \<Rightarrow> if t = [] then ''Erro desconhecido'' else t)"

fun emit :: "instant \<Rightarrow> event \<Rightarrow> PostScheduler \<Rightarrow> PostScheduler" where
  "emit now (PostScheduled post) s =
     logAnalytics now (sp_id post) ''scheduled''
       (Some (ScheduledForData (sp_scheduledFor post))) s"
| "emit now (PostPublished post) s =
     logAnalytics now (sp_id post) ''published'' None
       (updatePostStatus (sp_id post) Posted (Some None) (Some (Some now)) s)"
| "emit now (PostFailed post err) s =
     logAnalytics now (sp_id post) ''failed'' (Some (ErrorData err))
       (handleFailedPost (sp_id post) (message_or_default err) s)"
| "emit now (PostRetrying post attempt) s =
     logAnalytics now (sp_id post) ''retry'' (Some (AttemptData attempt)) s"

section \<open>Scheduling\<close>

text \<open>
  What the \<^verbatim>\<open>INSERT\<close> binds for a field of the body (an absent value and \<^verbatim>\<open>null\<close> bind
  NULL), and whether \<^verbatim>\<open>value.slice(0, 50)\<close> can be called.
\<close>

definition sql_text :: "body_value \<Rightarrow> string option" where
  "sql_text v = (case v of Missing \<Rightarrow> None | Text t \<Rightarrow> Some t | NotText t sl \<Rightarrow> Some t)"

definition has_slice :: "body_value \<Rightarrow> bool" where
  "has_slice v = (case v of Missing \<Rightarrow> False | Text t \<Rightarrow> True | NotText t sl \<Rightarrow> sl)"

text \<open>
  \<^verbatim>\<open>schedulePost\<close>. \<open>postId\<close> is the identifier the call generates from the clock and
  \<^verbatim>\<open>Math.random\<close>, \<open>now\<close> the clock. The result is what the call returns or throws, and
  the state it leaves. It throws when the database is not open; when \<^verbatim>\<open>toISOString\<close>
  meets an Invalid Date; when the \<^verbatim>\<open>INSERT\<close> violates a constraint of the table
  (\<^verbatim>\<open>content\<close> and \<^verbatim>\<open>platform\<close> are \<^verbatim>\<open>NOT NULL\<close>, \<^verbatim>\<open>id\<close> is the primary key); and, after
  the row is inserted, when the listener of \<^verbatim>\<open>post:scheduled\<close> calls
  \<^verbatim>\<open>post.content.slice\<close> on a content that has no such method, which happens before the
  listener logs the event. It checks nothing else. The in-memory copy handed to the
  listener is given the stored text as its content. The insert names neither
  \<^verbatim>\<open>retry_count\<close> (default 0) nor \<^verbatim>\<open>published_at\<close> and \<^verbatim>\<open>error_message\<close> (NULL).
\<close>

definition schedulePost ::
  "string \<Rightarrow> instant \<Rightarrow> PostRequest \<Rightarrow> PostScheduler \<Rightarrow> (error + string) \<times> PostScheduler" where
  "schedulePost postId now postData s =
     (case db s of
        None \<Rightarrow> (Inl DatabaseNotInitialised, s)
      | Some d \<Rightarrow>
          (case (case req_scheduledFor postData of None \<Rightarrow> ParsesTo now | Some t \<Rightarrow> t) of
             InvalidDate \<Rightarrow> (Inl RangeError, s)
           | ParsesTo scheduledFor \<Rightarrow>
               (case sql_text (req_content postData) of
                  None \<Rightarrow> (Inl SqliteConstraint, s)
                | Some content \<Rightarrow>
                    (case sql_text (req_platform postData) of
                       None \<Rightarrow> (Inl SqliteConstraint, s)
                     | Some platform \<Rightarrow>
                         if postId \<in> p_id ` set (posts d) then (Inl SqliteConstraint, s)
                         else if has_slice (req_content postData)
                         then
                           (Inr postId,
                            emit now
                              (PostScheduled
                                \<lparr>sp_id = postId,
                                 sp_content = content,
                                 sp_scheduledFor = scheduledFor,
                                 sp_status = Pending,
                                 sp_createdAt = now,
                                 sp_platform = platform,
                                 sp_tags = req_tags postData,
                                 sp_retry_count = None,
                                 sp_publishedAt = None,
                                 sp_errorMessage = None\<rparr>)
                              (s\<lparr>db := Some (d\<lparr>posts := posts d @
                                   [\<lparr>p_id = postId,
                                     p_content = content,
                                     p_scheduled_for = scheduledFor,
                                     p_status = Pending,
                                     p_created_at = now,
                                     p_platform = platform,
                                     p_tags = req_tags postData,
                                     p_published_at = None,
                                     p_error_message = None,
                                     p_retry_count = Some 0\<rparr>]\<rparr>)\<rparr>))
                         else
                           (Inl TypeError,
                            s\<lparr>db := Some (d\<lparr>posts := posts d @
                                 [\<lparr>p_id = postId,
                                   p_content = content,
                                   p_scheduled_for = scheduledFor,
                                   p_status = Pending,
                                   p_created_at = now,
                                   p_platform = platform,
                                   p_tags = req_tags postData,
                                   p_published_at = None,
                                   p_error_message = None,
                                   p_retry_count = Some 0\<rparr>]\<rparr>)\<rparr>)))))"

section \<open>The publish flow\<close>

definition publishToTwitter :: "tweet_outcome \<Rightarrow> ScheduledPost \<Rightarrow> string option + unit" where
  "publishToTwitter outcome post =
     (case outcome of TweetOk \<Rightarrow> Inr () | TweetError m \<Rightarrow> Inl m)"

definition setTimeout :: "instant \<Rightarrow> ScheduledPost \<Rightarrow> PostScheduler \<Rightarrow> PostScheduler" where
  "setTimeout due post s = s\<lparr>timers := timers s @ [(due, post)]\<rparr>"

text \<open>\<^verbatim>\<open>currentPost.retry_count ?? 0\<close>.\<close>

definition retry_count_or_0 :: "ScheduledPost \<Rightarrow> int" where
  "retry_count_or_0 post = (case sp_retry_count post of None \<Rightarrow> 0 | Some n \<Rightarrow> n)"

text \<open>
  \<^verbatim>\<open>publishPost\<close>, one attempt. \<open>deliver\<close> is the \<^verbatim>\<open>switch\<close> of the \<^verbatim>\<open>try\<close> block:
  \<open>outcome\<close> is what the Twitter call of this attempt does, the other two platforms
  publish nothing, and a platform that matches no \<^verbatim>\<open>case\<close> (the \<^verbatim>\<open>switch\<close> has no
  default) does nothing either; all of these go on to the \<^verbatim>\<open>emit\<close> that follows. The
  \<^verbatim>\<open>catch\<close> block reads the row again.
\<close>

definition deliver :: "tweet_outcome \<Rightarrow> ScheduledPost \<Rightarrow> string option + unit" where
  "deliver outcome post =
     (if sp_platform post = Twitter then publishToTwitter outcome post
      else if sp_platform post = Linkedin then Inr ()
      else if sp_platform post = Instagram then Inr ()
      else Inr ())"

definition publishPost ::
  "instant \<Rightarrow> tweet_outcome \<Rightarrow> ScheduledPost \<Rightarrow> PostScheduler \<Rightarrow> PostScheduler" where
  "publishPost now outcome post s =
     (case deliver outcome post of
        Inr _ \<Rightarrow> emit now (PostPublished post) s
      | Inl err \<Rightarrow>
          (case getPostById s (sp_id post) of
             None \<Rightarrow> emit now (PostFailed post err) s
           | Some currentPost \<Rightarrow>
               if retry_count_or_0 currentPost < 3
               then setTimeout (now + 5 * 60 * 1000) post
                      (emit now (PostRetrying post (retry_count_or_0 currentPost + 1)) s)
               else emit now (PostFailed post err) s))"

text \<open>
  A timer fires: the \<open>k\<close>-th pending timer, once its delay has passed, runs its callback
  \<^verbatim>\<open>() => this.publishPost(post)\<close> with the in-memory copy the closure holds.
\<close>

definition fireTimer ::
  "nat \<Rightarrow> instant \<Rightarrow> tweet_outcome \<Rightarrow> PostScheduler \<Rightarrow> PostScheduler" where
  "fireTimer k now outcome s =
     (if k < length (timers s) \<and> fst (timers s ! k) \<le> now
      then publishPost now outcome (snd (timers s ! k))
             (s\<lparr>timers := take k (timers s) @ drop (Suc k) (timers s)\<rparr>)
      else s)"

section \<open>The dispatch tick\<close>

text \<open>
  The query of the tick. \<^verbatim>\<open>scheduled_for <= ?\<close> and \<^verbatim>\<open>ORDER BY scheduled_for\<close> compare
  the stored text with the text of \<open>now\<close> and with each other. \<^verbatim>\<open>retry_count < 3\<close> is not
  true of a NULL. Rows with the same \<^verbatim>\<open>scheduled_for\<close> are left in row order (SQL leaves
  their order open).
\<close>

definition dueQuery :: "instant \<Rightarrow> posts_row list \<Rightarrow> posts_row list" where
  "dueQuery now rows =
     sort_key (\<lambda>r. iso_key (p_scheduled_for r))
       (filter (\<lambda>r. p_status r = Pending \<and> iso_key (p_scheduled_for r) \<le> iso_key now \<and>
                    (case p_retry_count r of None \<Rightarrow> False | Some n \<Rightarrow> n < 3)) rows)"

text \<open>The object the tick builds from a row: no \<^verbatim>\<open>publishedAt\<close>, no \<^verbatim>\<open>errorMessage\<close>.\<close>

definition tick_post :: "posts_row \<Rightarrow> ScheduledPost" where
  "tick_post dbPost =
     \<lparr>sp_id = p_id dbPost,
      sp_content = p_content dbPost,
      sp_scheduledFor = p_scheduled_for dbPost,
      sp_status = p_status dbPost,
      sp_createdAt = p_created_at dbPost,
      sp_platform = p_platform dbPost,
      sp_tags = p_tags dbPost,
      sp_retry_count = p_retry_count dbPost,
      sp_publishedAt = None,
      sp_errorMessage = None\<rparr>"

text \<open>
  One run of the every-minute job of \<^verbatim>\<open>startScheduler\<close>; \<open>twitter\<close> gives the outcome of
  the Twitter call for each item of this tick. The attempts are taken one after the
  other, in the order of the query.
\<close>

definition tick ::
  "instant \<Rightarrow> (ScheduledPost \<Rightarrow> tweet_outcome) \<Rightarrow> PostScheduler \<Rightarrow> PostScheduler" where
  "tick now twitter s =
     (case db s of
        None \<Rightarrow> s
      | Some d \<Rightarrow>
          foldl (\<lambda>s' dbPost. publishPost now (twitter (tick_post dbPost)) (tick_post dbPost) s')
            s (dueQuery now (posts d)))"

section \<open>Maintenance and deletion\<close>

text \<open>
  The time zone of the host, which the source does not fix: \<^verbatim>\<open>LocalTZA(t, isUTC)\<close> of
  ECMAScript, the offset of local time from UTC in milliseconds, at the UTC time \<open>t\<close>
  when \<open>isUTC\<close> holds and at the local time \<open>t\<close> otherwise.
\<close>

type_synonym time_zone = "instant \<Rightarrow> bool \<Rightarrow> int"

text \<open>
  \<^verbatim>\<open>thirtyDaysAgo.setDate(thirtyDaysAgo.getDate() - 30)\<close>: \<^verbatim>\<open>setDate\<close> takes the local
  time of \<open>now\<close>, moves its day back by 30 and keeps the time within the day, and turns
  the local time it gets back into UTC.
\<close>

definition thirtyDaysAgo :: "time_zone \<Rightarrow> instant \<Rightarrow> instant" where
  "thirtyDaysAgo LocalTZA now =
     (let localTime = now + LocalTZA now True;
          newDate = localTime - 30 * 86400000
      in newDate - LocalTZA newDate False)"

text \<open>The clean-up. \<^verbatim>\<open>created_at < ?\<close> compares the stored text with the text of the cut.\<close>

definition cleanupOldPosts :: "time_zone \<Rightarrow> instant \<Rightarrow> PostScheduler \<Rightarrow> PostScheduler" where
  "cleanupOldPosts LocalTZA now s =
     (case db s of
        None \<Rightarrow> s
      | Some d \<Rightarrow>
          s\<lparr>db := Some (d\<lparr>posts :=
               filter (\<lambda>r. \<not> ((p_status r = Posted \<or> p_status r = Failed) \<and>
                               iso_key (p_created_at r) < iso_key (thirtyDaysAgo LocalTZA now)))
                 (posts d)\<rparr>)\<rparr>)"

text \<open>\<^verbatim>\<open>deleteScheduledPost\<close>: the result is \<^verbatim>\<open>result.changes > 0\<close>.\<close>

definition deleteScheduledPost :: "string \<Rightarrow> PostScheduler \<Rightarrow> bool \<times> PostScheduler" where
  "deleteScheduledPost i s =
     (case db s of
        None \<Rightarrow> (False, s)
      | Some d \<Rightarrow>
          (0 < length (filter (\<lambda>r. p_id r = i \<and> p_status r = Pending) (posts d)),
           s\<lparr>db := Some (d\<lparr>posts :=
               filter (\<lambda>r. \<not> (p_id r = i \<and> p_status r = Pending)) (posts d)\<rparr>)\<rparr>))"

section \<open>Analytics\<close>

text \<open>A row of the join: the event with \<^verbatim>\<open>content\<close>, \<^verbatim>\<open>platform\<close> and \<^verbatim>\<open>status\<close> of its item.\<close>

record joined_row =
  j_event :: analytics_row
  j_content :: string
  j_platform :: platform
  j_status :: status

text \<open>The statistics row. \<^verbatim>\<open>SUM\<close> over no rows is NULL, \<^verbatim>\<open>COUNT(*)\<close> is 0.\<close>

record stats =
  total_posts :: nat
  published :: "nat option"
  pending :: "nat option"
  failed :: "nat option"

text \<open>
  The object \<^verbatim>\<open>getAnalytics\<close> returns: \<^verbatim>\<open>{ posts: 0, analytics: [] }\<close> without a database,
  \<^verbatim>\<open>{ stats, analytics }\<close> with one.
\<close>

record analytics_result =
  r_posts :: "nat option"
  r_stats :: "stats option"
  r_analytics :: "joined_row list"

definition sql_sum :: "nat list \<Rightarrow> nat option" where
  "sql_sum xs = (if xs = [] then None else Some (sum_list xs))"

definition stats_query :: "posts_row list \<Rightarrow> stats" where
  "stats_query rows =
     \<lparr>total_posts = length rows,
      published = sql_sum (map (\<lambda>r. if p_status r = Posted then 1 else 0) rows),
      pending = sql_sum (map (\<lambda>r. if p_status r = Pending then 1 else 0) rows),
      failed = sql_sum (map (\<lambda>r. if p_status r = Failed then 1 else 0) rows)\<rparr>"

definition join_posts :: "analytics_row list \<Rightarrow> posts_row list \<Rightarrow> joined_row list" where
  "join_posts pas ps =
     concat (map (\<lambda>pa. map (\<lambda>p. \<lparr>j_event = pa, j_content = p_content p,
                                  j_platform = p_platform p, j_status = p_status p\<rparr>)
                          (filter (\<lambda>p. p_id p = a_post_id pa) ps)) pas)"

text \<open>
  \<^verbatim>\<open>getAnalytics\<close>. \<^verbatim>\<open>if (postId)\<close> is false for an absent and for an empty identifier.
  Newest first, at most 100; events of the same instant come latest row first (SQL
  leaves their order open).
\<close>

definition getAnalytics :: "string option \<Rightarrow> PostScheduler \<Rightarrow> analytics_result" where
  "getAnalytics postId s =
     (case db s of
        None \<Rightarrow> \<lparr>r_posts = Some 0, r_stats = None, r_analytics = []\<rparr>
      | Some d \<Rightarrow>
          \<lparr>r_posts = None,
           r_stats = Some (stats_query (posts d)),
           r_analytics =
             take 100 (rev (sort_key (\<lambda>j. a_created_at (j_event j))
               (filter (\<lambda>j. case postId of
                              None \<Rightarrow> True
                            | Some i \<Rightarrow> i = [] \<or> a_post_id (j_event j) = i)
                  (join_posts (post_analytics d) (posts d)))))\<rparr>)"

section \<open>Reachable states\<close>

text \<open>
  The states the program can be in: a process starts with no database handle, opens a
  new file or, after a restart, the file an earlier process left (the timers of that
  process are gone), and from then on runs its operations: \<^verbatim>\<open>schedulePost\<close> (the routes
  and the daily job), the tick, a timer, \<^verbatim>\<open>deleteScheduledPost\<close>, the clean-up. The
  queries change nothing.
\<close>

inductive reachable :: "PostScheduler \<Rightarrow> bool" where
  start: "reachable constructor"
| opened: "reachable s \<Longrightarrow> db s = None \<Longrightarrow> reachable (initDatabase createTables s)"
| restarted: "reachable s \<Longrightarrow> db s = Some d \<Longrightarrow> reachable (initDatabase d constructor)"
| scheduled: "reachable s \<Longrightarrow> reachable (snd (schedulePost postId now postData s))"
| ticked: "reachable s \<Longrightarrow> reachable (tick now twitter s)"
| timer_fired: "reachable s \<Longrightarrow> reachable (fireTimer k now outcome s)"
| deleted: "reachable s \<Longrightarrow> reachable (snd (deleteScheduledPost i s))"
| cleaned: "reachable s \<Longrightarrow> reachable (cleanupOldPosts LocalTZA now s)"

section \<open>The primary key\<close>

text \<open>\<^verbatim>\<open>id TEXT PRIMARY KEY\<close>: no two rows of \<^verbatim>\<open>posts\<close> have the same \<^verbatim>\<open>id\<close>.\<close>

definition primary_key :: "PostScheduler \<Rightarrow> bool" where
  "primary_key s = (case db s of None \<Rightarrow> True | Some d \<Rightarrow> distinct (map p_id (posts d)))"

section \<open>What holds of every reachable state\<close>

text \<open>
  A row as the program's own writes leave it: retry count 0, never \<open>failed\<close>, no error
  message, and a published time exactly when the status is \<open>posted\<close>.
\<close>

definition row_ok :: "posts_row \<Rightarrow> bool" where
  "row_ok r =
     (p_retry_count r = Some 0 \<and> p_status r \<noteq> Failed \<and> p_error_message r = None \<and>
      (p_published_at r \<noteq> None) = (p_status r = Posted))"

text \<open>A \<open>retry\<close> event as the program writes it: its attempt number is 1.\<close>

definition event_ok :: "analytics_row \<Rightarrow> bool" where
  "event_ok a =
     (if a_event_type a = ''retry'' then a_event_data a = Some (AttemptData 1) else True)"

definition engine_inv :: "PostScheduler \<Rightarrow> bool" where
  "engine_inv s =
     (case db s of
        None \<Rightarrow> True
      | Some d \<Rightarrow> list_all row_ok (posts d) \<and> list_all event_ok (post_analytics d) \<and>
                  distinct (map p_id (posts d)))"

section \<open>A run of failing attempts\<close>

text \<open>What an event says, without its key and time.\<close>

definition event_view :: "analytics_row \<Rightarrow> string \<times> string \<times> event_data option" where
  "event_view a = (a_post_id a, a_event_type a, a_event_data a)"

text \<open>
  An item whose Twitter call fails every time: the first attempt at \<open>now\<close>, and then
  \<open>n\<close> times the timer set last fires when its five minutes are over and the attempt it
  runs fails again.
\<close>

fun failing_run ::
  "nat \<Rightarrow> instant \<Rightarrow> string option \<Rightarrow> ScheduledPost \<Rightarrow> PostScheduler \<Rightarrow> PostScheduler" where
  "failing_run 0 now err post s = publishPost now (TweetError err) post s"
| "failing_run (Suc n) now err post s =
     fireTimer (length (timers (failing_run n now err post s)) - 1)
       (now + (int n + 1) * 300000) (TweetError err) (failing_run n now err post s)"

section \<open>Example data\<close>

text \<open>A row as \<^verbatim>\<open>schedulePost\<close> writes it, with a chosen status and retry count.\<close>

definition example_row :: "string \<Rightarrow> instant \<Rightarrow> status \<Rightarrow> int option \<Rightarrow> posts_row" where
  "example_row i t st rc =
     \<lparr>p_id = i, p_content = ''bora codar?'', p_scheduled_for = t, p_status = st,
      p_created_at = 0, p_platform = Twitter, p_tags = None, p_published_at = None,
      p_error_message = None, p_retry_count = rc\<rparr>"

text \<open>A scheduler with an open database that holds the given rows and no events.\<close>

definition example_scheduler :: "posts_row list \<Rightarrow> PostScheduler" where
  "example_scheduler rows = \<lparr>db = Some \<lparr>posts = rows, post_analytics = []\<rparr>, timers = []\<rparr>"

text \<open>
  The daily item scheduled on a new database, and the state after its first three
  attempts, all failing: the tick after one minute, then the two timers, each fired when
  its five minutes are over.
\<close>

definition example_post_request :: PostRequest where
  "example_post_request =
     \<lparr>req_content = Text ''bora codar?'', req_scheduledFor = Some (ParsesTo 0),
      req_platform = Text Twitter, req_tags = Some [''daily'']\<rparr>"

definition always_failing :: "ScheduledPost \<Rightarrow> tweet_outcome" where
  "always_failing post = TweetError (Some ''503'')"

definition example_scheduled :: PostScheduler where
  "example_scheduled =
     snd (schedulePost ''post_1'' 0 example_post_request (initDatabase createTables constructor))"

definition example_three_failures :: PostScheduler where
  "example_three_failures =
     fireTimer 0 660000 (TweetError (Some ''503''))
       (fireTimer 0 360000 (TweetError (Some ''503''))
         (tick 60000 always_failing example_scheduled))"

text \<open>
  A host on UTC, and a host whose clock is on UTC until 2025-03-30T01:00:00Z (time value
  1743296400000) and one hour ahead of it from then on; the local times of the hour that
  is skipped count as before the change.
\<close>

definition utc_zone :: time_zone where
  "utc_zone t isUTC = 0"

definition example_zone :: time_zone where
  "example_zone t isUTC =
     (if isUTC then (if 1743296400000 \<le> t then 3600000 else 0)
      else (if 1743300000000 \<le> t then 3600000 else 0))"

text \<open>A store with two items and their events.\<close>

definition example_analytics_store :: PostScheduler where
  "example_analytics_store =
     \<lparr>db = Some
        \<lparr>posts = [example_row ''a'' 10 Pending (Some 0), example_row ''b'' 10 Posted (Some 0)],
         post_analytics =
           [\<lparr>a_id = 1, a_post_id = ''a'', a_event_type = ''scheduled'',
              a_event_data = Some (ScheduledForData 10), a_created_at = 1\<rparr>,
            \<lparr>a_id = 2, a_post_id = ''b'', a_event_type = ''scheduled'',
              a_event_data = Some (ScheduledForData 10), a_created_at = 2\<rparr>,
            \<lparr>a_id = 3, a_post_id = ''b'', a_event_type = ''published'',
              a_event_data = None, a_created_at = 12\<rparr>]\<rparr>,
      timers = []\<rparr>"

section \<open>Looking rows up by key\<close>

lemma find_id_None: "find (\<lambda>r. p_id r = i) rows = None \<longleftrightarrow> i \<notin> p_id ` set rows"
  by (auto simp: find_None_iff)

lemma find_id_distinct:
  "distinct (map p_id rows) \<Longrightarrow> r \<in> set rows \<Longrightarrow> find (\<lambda>x. p_id x = p_id r) rows = Some r"
  by (induction rows) (auto simp: rev_image_eqI)

lemma find_id_Some: "find (\<lambda>r. p_id r = i) rows = Some r \<Longrightarrow> r \<in> set rows \<and> p_id r = i"
  by (induction rows) (auto split: if_splits)

lemma same_id_same_row:
  "distinct (map p_id rows) \<Longrightarrow> r \<in> set rows \<Longrightarrow> x \<in> set rows \<Longrightarrow> p_id x = p_id r \<Longrightarrow> x = r"
  by (auto simp: distinct_map dest: inj_onD)

lemma find_id_iff:
  "distinct (map p_id rows) \<Longrightarrow>
   (find (\<lambda>x. p_id x = i) rows = Some r) = (r \<in> set rows \<and> p_id r = i)"
  using find_id_distinct find_id_Some by blast

lemma find_filter_keep:
  "(\<And>x. Q x \<Longrightarrow> P x) \<Longrightarrow> find Q (filter P xs) = find Q xs"
  by (induction xs) auto

section \<open>Texts of the years 0000 to 9999 compare as their times\<close>

lemma iso_key_four_digit_le:
  "four_digit_year a \<Longrightarrow> four_digit_year b \<Longrightarrow> (iso_key a \<le> iso_key b) = (a \<le> b)"
  by (auto simp: iso_key_def four_digit_year_def)

lemma iso_key_four_digit_less:
  "four_digit_year a \<Longrightarrow> four_digit_year b \<Longrightarrow> (iso_key a < iso_key b) = (a < b)"
  by (auto simp: iso_key_def four_digit_year_def)

lemma YearFromTime_at_the_turns:
  "YearFromTime 0 = 1970 \<and> YearFromTime (- 1) = 1969
   \<and> YearFromTime (- 62167219200000) = 0 \<and> YearFromTime (- 62167219200001) = - 1
   \<and> YearFromTime (- 62198755200000) = - 1 \<and> YearFromTime (- 62198755200001) = - 2
   \<and> YearFromTime 253402300799999 = 9999 \<and> YearFromTime 253402300800000 = 10000"
  by code_simp

section \<open>What the listeners and one attempt do\<close>

lemma sum_list_count: "sum_list (map (\<lambda>r. if P r then 1 else 0) rows) = length (filter P rows)"
  by (induction rows) auto

lemma set_row_posted:
  "set_row Posted (Some None) (Some (Some now)) r =
     r\<lparr>p_status := Posted, p_error_message := None, p_published_at := Some now\<rparr>"
  by (simp add: set_row_def)

lemma set_row_failed:
  "set_row Failed (Some (Some m)) None r =
     r\<lparr>p_status := Failed, p_error_message := Some m,
       p_retry_count := map_option (\<lambda>n. n + 1) (p_retry_count r)\<rparr>"
  by (simp add: set_row_def)

lemma emit_published:
  assumes "db s = Some d"
  shows "emit now (PostPublished post) s =
     s\<lparr>db := Some (d\<lparr>posts :=
            map (\<lambda>r. if p_id r = sp_id post
                      then r\<lparr>p_status := Posted, p_error_message := None,
                             p_published_at := Some now\<rparr>
                      else r) (posts d),
          post_analytics := post_analytics d @
            [\<lparr>a_id = next_id (post_analytics d), a_post_id = sp_id post,
              a_event_type = ''published'', a_event_data = None, a_created_at = now\<rparr>]\<rparr>)\<rparr>"
  using assms by (simp add: logAnalytics_def updatePostStatus_def set_row_posted)

lemma emit_failed:
  assumes "db s = Some d"
  shows "emit now (PostFailed post err) s =
     s\<lparr>db := Some (d\<lparr>posts :=
            map (\<lambda>r. if p_id r = sp_id post
                      then r\<lparr>p_status := Failed, p_error_message := Some (message_or_default err),
                             p_retry_count := map_option (\<lambda>n. n + 1) (p_retry_count r)\<rparr>
                      else r) (posts d),
          post_analytics := post_analytics d @
            [\<lparr>a_id = next_id (post_analytics d), a_post_id = sp_id post,
              a_event_type = ''failed'', a_event_data = Some (ErrorData err),
              a_created_at = now\<rparr>]\<rparr>)\<rparr>"
  using assms
  by (simp add: logAnalytics_def handleFailedPost_def updatePostStatus_def set_row_failed)

lemma emit_retrying:
  assumes "db s = Some d"
  shows "emit now (PostRetrying post n) s =
     s\<lparr>db := Some (d\<lparr>post_analytics := post_analytics d @
            [\<lparr>a_id = next_id (post_analytics d), a_post_id = sp_id post,
              a_event_type = ''retry'', a_event_data = Some (AttemptData n),
              a_created_at = now\<rparr>]\<rparr>)\<rparr>"
  using assms by (simp add: logAnalytics_def next_id_def)

lemma emit_no_db: "db s = None \<Longrightarrow> emit now e s = s"
  by (cases e) (simp_all add: logAnalytics_def handleFailedPost_def updatePostStatus_def)

lemma map_other_ids:
  "i \<notin> p_id ` set rows \<Longrightarrow> map (\<lambda>r. if p_id r = i then f r else r) rows = rows"
  by (induction rows) auto

lemma map_update_keeps_ids:
  "(\<And>r. p_id (f r) = p_id r) \<Longrightarrow>
   map p_id (map (\<lambda>r. if p_id r = i then f r else r) rows) = map p_id rows"
  by (induction rows) auto

lemma find_map_update:
  "(\<And>r. p_id (f r) = p_id r) \<Longrightarrow>
   find (\<lambda>r. p_id r = j) (map (\<lambda>r. if p_id r = i then f r else r) rows) =
     map_option (\<lambda>r. if p_id r = i then f r else r) (find (\<lambda>r. p_id r = j) rows)"
  by (induction rows) auto

lemma deliver_twitter_error:
  "sp_platform post = Twitter \<Longrightarrow> deliver (TweetError err) post = Inl err"
  by (simp add: deliver_def publishToTwitter_def)

lemma publishPost_no_db: "db s = None \<Longrightarrow> publishPost now outcome post s = s"
  by (simp add: publishPost_def getPostById_def emit_no_db split: sum.splits del: emit.simps)

lemma publishPost_failure_gone:
  assumes "db s = Some d" and "sp_id post \<notin> p_id ` set (posts d)"
    and "deliver outcome post = Inl err"
  shows "publishPost now outcome post s =
     s\<lparr>db := Some (d\<lparr>post_analytics := post_analytics d @
            [\<lparr>a_id = next_id (post_analytics d), a_post_id = sp_id post,
              a_event_type = ''failed'', a_event_data = Some (ErrorData err),
              a_created_at = now\<rparr>]\<rparr>)\<rparr>"
proof -
  have "getPostById s (sp_id post) = None"
    using assms(1,2) by (simp add: getPostById_def find_id_None)
  then show ?thesis
    using assms(3)
    by (simp add: publishPost_def emit_failed [OF assms(1)] map_other_ids [OF assms(2)]
        del: emit.simps)
qed

lemma publishPost_failure_retry:
  assumes "db s = Some d" and "find (\<lambda>x. p_id x = sp_id post) (posts d) = Some r"
    and "p_retry_count r = Some 0" and "deliver outcome post = Inl err"
  shows "publishPost now outcome post s =
     s\<lparr>db := Some (d\<lparr>post_analytics := post_analytics d @
            [\<lparr>a_id = next_id (post_analytics d), a_post_id = sp_id post,
              a_event_type = ''retry'', a_event_data = Some (AttemptData 1),
              a_created_at = now\<rparr>]\<rparr>),
       timers := timers s @ [(now + 300000, post)]\<rparr>"
proof -
  have "getPostById s (sp_id post) = Some (row_to_post r)"
    using assms(1,2) by (simp add: getPostById_def)
  moreover have "retry_count_or_0 (row_to_post r) = 0"
    using assms(3) by (simp add: retry_count_or_0_def row_to_post_def)
  ultimately show ?thesis
    using assms(4)
    by (simp add: publishPost_def emit_retrying [OF assms(1)] setTimeout_def del: emit.simps)
qed

lemma fireTimer_last:
  "timers s = ts @ [(due, post)] \<Longrightarrow> due \<le> t \<Longrightarrow>
   fireTimer (length ts) t outcome s = publishPost t outcome post (s\<lparr>timers := ts\<rparr>)"
  by (simp add: fireTimer_def nth_append)

lemma fireTimer_early:
  "timers s = ts @ [(due, post)] \<Longrightarrow> t < due \<Longrightarrow> fireTimer (length ts) t outcome s = s"
  by (simp add: fireTimer_def nth_append)

section \<open>The invariant\<close>

lemma inv_publishPost:
  assumes "engine_inv s"
  shows "engine_inv (publishPost now outcome post s)"
proof (cases "db s")
  case None
  with assms show ?thesis by (simp add: publishPost_no_db)
next
  case (Some d)
  from assms Some have rows: "list_all row_ok (posts d)"
    and evs: "list_all event_ok (post_analytics d)"
    and dist: "distinct (map p_id (posts d))"
    by (simp_all add: engine_inv_def)
  show ?thesis
  proof (cases "deliver outcome post")
    case (Inr u)
    let ?rows = "map (\<lambda>r. if p_id r = sp_id post
                      then r\<lparr>p_status := Posted, p_error_message := None,
                             p_published_at := Some now\<rparr>
                      else r) (posts d)"
    from Inr have "publishPost now outcome post s = emit now (PostPublished post) s"
      by (simp add: publishPost_def)
    then have step: "db (publishPost now outcome post s) =
        Some (d\<lparr>posts := ?rows, post_analytics := post_analytics d @
            [\<lparr>a_id = next_id (post_analytics d), a_post_id = sp_id post,
              a_event_type = ''published'', a_event_data = None, a_created_at = now\<rparr>]\<rparr>)"
      by (simp add: emit_published [OF Some] del: emit.simps)
    have "map p_id ?rows = map p_id (posts d)"
      by (rule map_update_keeps_ids) simp
    with dist have "distinct (map p_id ?rows)"
      by (simp only:)
    moreover have "list_all row_ok ?rows"
      using rows by (auto simp: list_all_iff row_ok_def)
    ultimately show ?thesis
      using evs by (simp add: step engine_inv_def event_ok_def)
  next
    case (Inl err)
    show ?thesis
    proof (cases "find (\<lambda>x. p_id x = sp_id post) (posts d)")
      case None
      then have "sp_id post \<notin> p_id ` set (posts d)"
        by (simp add: find_id_None)
      from publishPost_failure_gone [OF Some this Inl] rows evs dist show ?thesis
        by (simp add: engine_inv_def event_ok_def)
    next
      case (Some r)
      then have "r \<in> set (posts d)"
        using find_id_Some by blast
      with rows have "p_retry_count r = Some 0"
        by (simp add: list_all_iff row_ok_def)
      from publishPost_failure_retry [OF \<open>db s = Some d\<close> Some this Inl] rows evs dist
      show ?thesis
        by (simp add: engine_inv_def event_ok_def)
    qed
  qed
qed

lemma foldl_preserves:
  "(\<And>a x. P a \<Longrightarrow> P (f a x)) \<Longrightarrow> P a \<Longrightarrow> P (foldl f a xs)"
  by (induction xs arbitrary: a) auto

lemma inv_tick: "engine_inv s \<Longrightarrow> engine_inv (tick now twitter s)"
  by (cases "db s") (auto simp: tick_def intro: foldl_preserves inv_publishPost)

lemma inv_timers: "engine_inv (s\<lparr>timers := ts\<rparr>) = engine_inv s"
  by (simp add: engine_inv_def)

lemma inv_fireTimer: "engine_inv s \<Longrightarrow> engine_inv (fireTimer k now outcome s)"
  by (simp add: fireTimer_def inv_publishPost inv_timers)

lemma inv_schedulePost:
  "engine_inv s \<Longrightarrow> engine_inv (snd (schedulePost postId now postData s))"
  by (auto simp: schedulePost_def engine_inv_def logAnalytics_def row_ok_def event_ok_def
      split: option.splits date_text.splits)

lemma inv_delete: "engine_inv s \<Longrightarrow> engine_inv (snd (deleteScheduledPost i s))"
  by (auto simp: deleteScheduledPost_def engine_inv_def list_all_iff distinct_map_filter
      split: option.splits)

lemma inv_cleanup: "engine_inv s \<Longrightarrow> engine_inv (cleanupOldPosts LocalTZA now s)"
  by (auto simp: cleanupOldPosts_def engine_inv_def list_all_iff distinct_map_filter
      split: option.splits)

lemma reachable_inv: "reachable s \<Longrightarrow> engine_inv s"
proof (induction rule: reachable.induct)
  case start
  show ?case by (simp add: engine_inv_def constructor_def)
next
  case (opened s)
  show ?case by (simp add: engine_inv_def initDatabase_def createTables_def)
next
  case (restarted s d)
  then show ?case by (simp add: engine_inv_def initDatabase_def constructor_def)
next
  case (scheduled s postId now postData)
  then show ?case by (simp add: inv_schedulePost)
next
  case (ticked s now twitter)
  then show ?case by (simp add: inv_tick)
next
  case (timer_fired s k now outcome)
  then show ?case by (simp add: inv_fireTimer)
next
  case (deleted s i)
  then show ?case by (simp add: inv_delete)
next
  case (cleaned s LocalTZA now)
  then show ?case by (simp add: inv_cleanup)
qed

lemma failing_step:
  assumes "engine_inv s" and "db s = Some d" and "sp_id post \<in> p_id ` set (posts d)"
    and "sp_platform post = Twitter"
  shows "publishPost now (TweetError err) post s =
     s\<lparr>db := Some (d\<lparr>post_analytics := post_analytics d @
            [\<lparr>a_id = next_id (post_analytics d), a_post_id = sp_id post,
              a_event_type = ''retry'', a_event_data = Some (AttemptData 1),
              a_created_at = now\<rparr>]\<rparr>),
       timers := timers s @ [(now + 300000, post)]\<rparr>"
proof -
  from assms(3) obtain r where r: "find (\<lambda>x. p_id x = sp_id post) (posts d) = Some r"
    using find_id_None [of "sp_id post" "posts d"] by (cases "find (\<lambda>x. p_id x = sp_id post) (posts d)") auto
  then have "r \<in> set (posts d)"
    using find_id_Some by blast
  with assms(1,2) have "p_retry_count r = Some 0"
    by (simp add: engine_inv_def list_all_iff row_ok_def)
  from publishPost_failure_retry [OF assms(2) r this deliver_twitter_error [OF assms(4)]]
  show ?thesis .
qed

lemma failing_run_state:
  assumes "engine_inv s" and "db s = Some d" and "sp_id post \<in> p_id ` set (posts d)"
    and "sp_platform post = Twitter"
  shows "engine_inv (failing_run n now err post s) \<and>
     (\<exists>d'. db (failing_run n now err post s) = Some d' \<and> posts d' = posts d \<and>
        map event_view (post_analytics d') =
          map event_view (post_analytics d) @
          replicate (Suc n) (sp_id post, ''retry'', Some (AttemptData 1))) \<and>
     timers (failing_run n now err post s) =
       timers s @ [(now + (int n + 1) * 300000, post)]"
proof (induction n)
  case 0
  show ?case
    using assms inv_publishPost [OF assms(1), of now "TweetError err" post]
    by (simp add: failing_step [OF assms] event_view_def)
next
  case (Suc n)
  let ?sn = "failing_run n now err post s"
  let ?t = "now + (int n + 1) * 300000"
  from Suc obtain d' where inv: "engine_inv ?sn" and d': "db ?sn = Some d'"
    and rows: "posts d' = posts d"
    and evs: "map event_view (post_analytics d') =
          map event_view (post_analytics d) @
          replicate (Suc n) (sp_id post, ''retry'', Some (AttemptData 1))"
    and tm: "timers ?sn = timers s @ [(?t, post)]"
    by blast
  have fire: "failing_run (Suc n) now err post s =
      publishPost ?t (TweetError err) post (?sn\<lparr>timers := timers s\<rparr>)"
    using fireTimer_last [OF tm, of ?t "TweetError err"] tm by simp
  have inv': "engine_inv (?sn\<lparr>timers := timers s\<rparr>)"
    using inv by (simp add: inv_timers)
  have d'': "db (?sn\<lparr>timers := timers s\<rparr>) = Some d'"
    using d' by simp
  have there: "sp_id post \<in> p_id ` set (posts d')"
    using assms(3) rows by simp
  note step = failing_step [OF inv' d'' there assms(4), of ?t err]
  have "engine_inv (failing_run (Suc n) now err post s)"
    unfolding fire using inv' by (rule inv_publishPost)
  moreover have "\<exists>e. db (failing_run (Suc n) now err post s) = Some e \<and> posts e = posts d \<and>
        map event_view (post_analytics e) =
          map event_view (post_analytics d) @
          replicate (Suc (Suc n)) (sp_id post, ''retry'', Some (AttemptData 1))"
    unfolding fire step using rows evs
    by (simp add: event_view_def replicate_append_same)
  moreover have "timers (failing_run (Suc n) now err post s) =
       timers s @ [(now + (int (Suc n) + 1) * 300000, post)]"
    unfolding fire step by (simp add: algebra_simps)
  ultimately show ?case by blast
qed

lemma example_scheduled_eq:
  "example_scheduled =
     \<lparr>db = Some
        \<lparr>posts = [\<lparr>p_id = ''post_1'', p_content = ''bora codar?'', p_scheduled_for = 0,
                   p_status = Pending, p_created_at = 0, p_platform = Twitter,
                   p_tags = Some [''daily''], p_published_at = None, p_error_message = None,
                   p_retry_count = Some 0\<rparr>],
         post_analytics = [\<lparr>a_id = 1, a_post_id = ''post_1'', a_event_type = ''scheduled'',
                            a_event_data = Some (ScheduledForData 0), a_created_at = 0\<rparr>]\<rparr>,
      timers = []\<rparr>"
  by (simp add: example_scheduled_def schedulePost_def example_post_request_def
      sql_text_def has_slice_def initDatabase_def createTables_def constructor_def
      logAnalytics_def next_id_def)

lemma example_scheduled_reachable: "reachable example_scheduled"
proof -
  have "reachable (initDatabase createTables constructor)"
    by (rule reachable.opened [OF reachable.start]) (simp add: constructor_def)
  then have "reachable (snd (schedulePost ''post_1'' 0 example_post_request
      (initDatabase createTables constructor)))"
    by (rule reachable.scheduled)
  then show ?thesis by (simp only: example_scheduled_def)
qed

lemma example_published_reachable: "reachable (tick 60000 (\<lambda>post. TweetOk) example_scheduled)"
  by (rule reachable.ticked [OF example_scheduled_reachable])

section \<open>Reading an item back after it was published\<close>

lemma getPostById_published:
  assumes "getPostById s (sp_id post) = Some p"
  shows "getPostById (emit now (PostPublished post) s) (sp_id post) =
     Some (p\<lparr>sp_status := Posted, sp_publishedAt := Some now, sp_errorMessage := None\<rparr>)"
proof -
  from assms obtain d where d: "db s = Some d"
    by (cases "db s") (simp_all add: getPostById_def)
  from assms d obtain r where r: "find (\<lambda>x. p_id x = sp_id post) (posts d) = Some r"
    and p: "p = row_to_post r"
    by (auto simp: getPostById_def)
  have "p_id r = sp_id post"
    using find_id_Some [OF r] by simp
  then show ?thesis
    by (simp add: emit_published [OF d] getPostById_def find_map_update r p row_to_post_def
        del: emit.simps)
qed

lemma getPostById_published_other:
  assumes "i \<noteq> sp_id post"
  shows "getPostById (emit now (PostPublished post) s) i = getPostById s i"
proof (cases "db s")
  case None
  then show ?thesis by (simp add: emit_no_db del: emit.simps)
next
  case (Some d)
  have "map_option (\<lambda>r. if p_id r = sp_id post
          then r\<lparr>p_status := Posted, p_error_message := None, p_published_at := Some now\<rparr>
          else r) (find (\<lambda>r. p_id r = i) (posts d)) = find (\<lambda>r. p_id r = i) (posts d)"
    using assms by (cases "find (\<lambda>r. p_id r = i) (posts d)") (auto dest: find_id_Some)
  then show ?thesis
    by (simp add: emit_published [OF Some] getPostById_def Some find_map_update
        del: emit.simps)
qed

section \<open>The due-item query\<close>

text \<open>
  C3, as the code has it. The claim that the query returns exactly the pending items
  whose scheduled time is at most \<open>now\<close>, earliest first, does not hold: the query
  compares the stored texts. On 2025-11-03 (time value 1762128000000) an item scheduled
  for \<^verbatim>\<open>+010000-01-01T00:00:00.000Z\<close> is returned as due, and before an item that was due
  a day earlier.
\<close>

theorem dueQuery_year_10000_counterexample:
  "dueQuery 1762128000000
     [example_row ''near'' 1762041600000 Pending (Some 0),
      example_row ''far'' 253402300800000 Pending (Some 0)] =
     [example_row ''far'' 253402300800000 Pending (Some 0),
      example_row ''near'' 1762041600000 Pending (Some 0)]
   \<and> 1762128000000 < p_scheduled_for (example_row ''far'' 253402300800000 Pending (Some 0))"
  by (simp add: dueQuery_def example_row_def iso_key_def)

text \<open>
  C3, amended. The query returns exactly the rows with status \<open>pending\<close>, retry count
  below 3 and a scheduled time whose stored text is at most the text of \<open>now\<close> (each as
  often as the table holds it). When \<open>now\<close> and the scheduled times of the table lie in
  the years 0000 to 9999 these are exactly the pending rows with retry count below 3
  and scheduled time at most \<open>now\<close>, in ascending order of scheduled time. In every case
  a pending row with retry count 3 or more is never returned.
\<close>

theorem dueQuery_four_digit_years:
  "mset (dueQuery now rows) =
     filter_mset (\<lambda>r. p_status r = Pending \<and> iso_key (p_scheduled_for r) \<le> iso_key now \<and>
                      (\<exists>n. p_retry_count r = Some n \<and> n < 3)) (mset rows)
   \<and> (four_digit_year now \<and> (\<forall>r \<in> set rows. four_digit_year (p_scheduled_for r)) \<longrightarrow>
        mset (dueQuery now rows) =
          filter_mset (\<lambda>r. p_status r = Pending \<and> p_scheduled_for r \<le> now \<and>
                           (\<exists>n. p_retry_count r = Some n \<and> n < 3)) (mset rows)
        \<and> sorted (map p_scheduled_for (dueQuery now rows)))
   \<and> (\<forall>r n. p_status r = Pending \<and> p_retry_count r = Some n \<and> 3 \<le> n
          \<longrightarrow> r \<notin> set (dueQuery now rows))"
proof -
  have same: "(case p_retry_count r of None \<Rightarrow> False | Some n \<Rightarrow> n < 3) =
      (\<exists>n. p_retry_count r = Some n \<and> n < 3)" for r
    by (cases "p_retry_count r") simp_all
  have texts: "mset (dueQuery now rows) =
     filter_mset (\<lambda>r. p_status r = Pending \<and> iso_key (p_scheduled_for r) \<le> iso_key now \<and>
                      (\<exists>n. p_retry_count r = Some n \<and> n < 3)) (mset rows)"
    by (simp add: dueQuery_def same)
  have times: "mset (dueQuery now rows) =
          filter_mset (\<lambda>r. p_status r = Pending \<and> p_scheduled_for r \<le> now \<and>
                           (\<exists>n. p_retry_count r = Some n \<and> n < 3)) (mset rows)"
    if "four_digit_year now" "\<forall>r \<in> set rows. four_digit_year (p_scheduled_for r)"
    unfolding texts using that
    by (intro filter_mset_cong refl) (auto simp: iso_key_four_digit_le)
  have ordered: "sorted (map p_scheduled_for (dueQuery now rows))"
    if "\<forall>r \<in> set rows. four_digit_year (p_scheduled_for r)"
  proof -
    have "sorted (map (\<lambda>r. iso_key (p_scheduled_for r)) (dueQuery now rows))"
      by (simp add: dueQuery_def)
    then have "sorted_wrt (\<lambda>x y. iso_key (p_scheduled_for x) \<le> iso_key (p_scheduled_for y))
        (dueQuery now rows)"
      by (simp add: sorted_map)
    then have "sorted_wrt (\<lambda>x y. p_scheduled_for x \<le> p_scheduled_for y) (dueQuery now rows)"
    proof (rule sorted_wrt_mono_rel [rotated])
      fix x y
      assume "x \<in> set (dueQuery now rows)" "y \<in> set (dueQuery now rows)"
        and le: "iso_key (p_scheduled_for x) \<le> iso_key (p_scheduled_for y)"
      then have "four_digit_year (p_scheduled_for x)" "four_digit_year (p_scheduled_for y)"
        using that by (auto simp: dueQuery_def)
      with le show "p_scheduled_for x \<le> p_scheduled_for y"
        by (simp add: iso_key_four_digit_le)
    qed
    then show ?thesis by (simp add: sorted_map)
  qed
  have never: "\<forall>r n. p_status r = Pending \<and> p_retry_count r = Some n \<and> 3 \<le> n
          \<longrightarrow> r \<notin> set (dueQuery now rows)"
    by (auto simp: dueQuery_def)
  show ?thesis using texts times ordered never by blast
qed

theorem dueQuery_four_digit_years_witness:
  "four_digit_year 100
   \<and> four_digit_year (p_scheduled_for (example_row ''a'' 50 Pending (Some 0)))
   \<and> four_digit_year (p_scheduled_for (example_row ''b'' 10 Pending (Some 3)))
   \<and> four_digit_year (p_scheduled_for (example_row ''c'' 20 Pending (Some 2)))
   \<and> p_status (example_row ''b'' 10 Pending (Some 3)) = Pending
   \<and> p_retry_count (example_row ''b'' 10 Pending (Some 3)) = Some 3
   \<and> example_row ''b'' 10 Pending (Some 3) \<notin>
       set (dueQuery 100 [example_row ''a'' 50 Pending (Some 0),
                          example_row ''b'' 10 Pending (Some 3),
                          example_row ''c'' 20 Pending (Some 2)])
   \<and> dueQuery 100 [example_row ''a'' 50 Pending (Some 0),
                    example_row ''b'' 10 Pending (Some 3),
                    example_row ''c'' 20 Pending (Some 2)] =
      [example_row ''c'' 20 Pending (Some 2), example_row ''a'' 50 Pending (Some 0)]"
  using dueQuery_four_digit_years [of 100 "[example_row ''a'' 50 Pending (Some 0),
                                 example_row ''b'' 10 Pending (Some 3),
                                 example_row ''c'' 20 Pending (Some 2)]"]
  by (simp add: example_row_def dueQuery_def iso_key_def four_digit_year_def)

section \<open>Maintenance eviction\<close>

text \<open>
  C8, as the code has it. The claim that the clean-up deletes exactly the terminal items
  older than 30 days does not hold: the cut is 30 calendar days back on the local clock.
  On a host whose clock went one hour ahead on 2025-03-30, the clean-up of
  2025-04-15T00:00:00Z (time value 1744675200000) deletes a posted item that was created
  29 days, 23 hours and 30 minutes earlier.
\<close>

theorem cleanupOldPosts_clock_change_counterexample:
  "cleanupOldPosts example_zone 1744675200000
     (example_scheduler
        [(example_row ''p'' 0 Posted (Some 0))\<lparr>p_created_at := 1742085000000\<rparr>]) =
     example_scheduler []
   \<and> 1744675200000 - 2592000000 <
       p_created_at ((example_row ''p'' 0 Posted (Some 0))\<lparr>p_created_at := 1742085000000\<rparr>)"
  by (simp add: cleanupOldPosts_def thirtyDaysAgo_def example_zone_def example_scheduler_def
      example_row_def iso_key_def)

text \<open>
  C8, amended. With the database open, the clean-up removes exactly the rows whose
  status is \<open>posted\<close> or \<open>failed\<close> and whose stored creation text is before the text of
  the cut; every other row stays as it is, in its place, and so does every pending row
  of any age; the events and the timers are not touched. When the cut and the creation
  times of the table lie in the years 0000 to 9999, the rows removed are exactly the
  terminal rows created before the cut. The cut is the time 30 calendar days before
  \<open>now\<close> at the same time of day on the local clock: 30 times 24 hours (2592000000 ms)
  before \<open>now\<close>, moved by the difference between the offset of the local clock now and
  its offset then, and so exactly 30 times 24 hours before \<open>now\<close> when the two offsets
  are the same.
\<close>

theorem cleanupOldPosts_local_days:
  assumes "db s = Some d"
  shows "\<exists>d'. cleanupOldPosts LocalTZA now s = s\<lparr>db := Some d'\<rparr>
     \<and> post_analytics d' = post_analytics d
     \<and> posts d' = filter (\<lambda>r. \<not> ((p_status r = Posted \<or> p_status r = Failed) \<and>
                   iso_key (p_created_at r) < iso_key (thirtyDaysAgo LocalTZA now))) (posts d)
     \<and> (\<forall>r \<in> set (posts d). p_status r = Pending \<longrightarrow> r \<in> set (posts d'))
     \<and> set (posts d') \<subseteq> set (posts d)
     \<and> (four_digit_year (thirtyDaysAgo LocalTZA now) \<and>
          (\<forall>r \<in> set (posts d). four_digit_year (p_created_at r)) \<longrightarrow>
          posts d' = filter (\<lambda>r. \<not> ((p_status r = Posted \<or> p_status r = Failed) \<and>
                        p_created_at r < thirtyDaysAgo LocalTZA now)) (posts d)
          \<and> (\<forall>r. r \<in> set (posts d) \<and> r \<notin> set (posts d') \<longleftrightarrow>
                 r \<in> set (posts d) \<and> (p_status r = Posted \<or> p_status r = Failed) \<and>
                 p_created_at r < thirtyDaysAgo LocalTZA now)
          \<and> (\<forall>r \<in> set (posts d). thirtyDaysAgo LocalTZA now \<le> p_created_at r \<longrightarrow>
                 r \<in> set (posts d')))
     \<and> thirtyDaysAgo LocalTZA now =
         now - 2592000000 +
         (LocalTZA now True - LocalTZA (now + LocalTZA now True - 2592000000) False)
     \<and> (LocalTZA (now + LocalTZA now True - 2592000000) False = LocalTZA now True \<longrightarrow>
          thirtyDaysAgo LocalTZA now = now - 2592000000)"
proof -
  let ?cut = "thirtyDaysAgo LocalTZA now"
  let ?d' = "d\<lparr>posts := filter (\<lambda>r. \<not> ((p_status r = Posted \<or> p_status r = Failed) \<and>
                   iso_key (p_created_at r) < iso_key ?cut)) (posts d)\<rparr>"
  have step: "cleanupOldPosts LocalTZA now s = s\<lparr>db := Some ?d'\<rparr>"
    using assms by (simp add: cleanupOldPosts_def)
  have times: "posts ?d' = filter (\<lambda>r. \<not> ((p_status r = Posted \<or> p_status r = Failed) \<and>
                        p_created_at r < ?cut)) (posts d)"
    if "four_digit_year ?cut" "\<forall>r \<in> set (posts d). four_digit_year (p_created_at r)"
    using that by (auto simp: iso_key_four_digit_less intro!: filter_cong)
  have cut: "?cut = now - 2592000000 +
         (LocalTZA now True - LocalTZA (now + LocalTZA now True - 2592000000) False)"
    by (simp add: thirtyDaysAgo_def Let_def)
  have same: "?cut = now - 2592000000"
    if "LocalTZA (now + LocalTZA now True - 2592000000) False = LocalTZA now True"
    using that by (simp add: cut)
  have "post_analytics ?d' = post_analytics d
     \<and> posts ?d' = filter (\<lambda>r. \<not> ((p_status r = Posted \<or> p_status r = Failed) \<and>
                   iso_key (p_created_at r) < iso_key ?cut)) (posts d)
     \<and> (\<forall>r \<in> set (posts d). p_status r = Pending \<longrightarrow> r \<in> set (posts ?d'))
     \<and> set (posts ?d') \<subseteq> set (posts d)"
    by auto
  moreover have "four_digit_year ?cut \<and>
          (\<forall>r \<in> set (posts d). four_digit_year (p_created_at r)) \<longrightarrow>
          posts ?d' = filter (\<lambda>r. \<not> ((p_status r = Posted \<or> p_status r = Failed) \<and>
                        p_created_at r < ?cut)) (posts d)
          \<and> (\<forall>r. r \<in> set (posts d) \<and> r \<notin> set (posts ?d') \<longleftrightarrow>
                 r \<in> set (posts d) \<and> (p_status r = Posted \<or> p_status r = Failed) \<and>
                 p_created_at r < ?cut)
          \<and> (\<forall>r \<in> set (posts d). ?cut \<le> p_created_at r \<longrightarrow> r \<in> set (posts ?d'))"
  proof (intro impI, elim conjE)
    assume a: "four_digit_year ?cut" "\<forall>r \<in> set (posts d). four_digit_year (p_created_at r)"
    show "posts ?d' = filter (\<lambda>r. \<not> ((p_status r = Posted \<or> p_status r = Failed) \<and>
                        p_created_at r < ?cut)) (posts d)
          \<and> (\<forall>r. r \<in> set (posts d) \<and> r \<notin> set (posts ?d') \<longleftrightarrow>
                 r \<in> set (posts d) \<and> (p_status r = Posted \<or> p_status r = Failed) \<and>
                 p_created_at r < ?cut)
          \<and> (\<forall>r \<in> set (posts d). ?cut \<le> p_created_at r \<longrightarrow> r \<in> set (posts ?d'))"
      unfolding times [OF a] by auto
  qed
  ultimately show ?thesis
    using step cut same by blast
qed

theorem cleanupOldPosts_local_days_witness:
  "db (example_scheduler
         [example_row ''old_posted'' 0 Posted (Some 0),
          example_row ''old_pending'' 0 Pending (Some 0),
          (example_row ''new_failed'' 0 Failed (Some 4))\<lparr>p_created_at := 500000000\<rparr>]) =
     Some \<lparr>posts = [example_row ''old_posted'' 0 Posted (Some 0),
                   example_row ''old_pending'' 0 Pending (Some 0),
                   (example_row ''new_failed'' 0 Failed (Some 4))\<lparr>p_created_at := 500000000\<rparr>],
           post_analytics = []\<rparr>
   \<and> thirtyDaysAgo utc_zone 3000000000 = 408000000
   \<and> four_digit_year (thirtyDaysAgo utc_zone 3000000000)
   \<and> four_digit_year (p_created_at (example_row ''old_posted'' 0 Posted (Some 0)))
   \<and> four_digit_year (p_created_at
        ((example_row ''new_failed'' 0 Failed (Some 4))\<lparr>p_created_at := 500000000\<rparr>))
   \<and> utc_zone (3000000000 + utc_zone 3000000000 True - 2592000000) False =
       utc_zone 3000000000 True
   \<and> cleanupOldPosts utc_zone 3000000000
       (example_scheduler
         [example_row ''old_posted'' 0 Posted (Some 0),
          example_row ''old_pending'' 0 Pending (Some 0),
          (example_row ''new_failed'' 0 Failed (Some 4))\<lparr>p_created_at := 500000000\<rparr>]) =
     example_scheduler
       [example_row ''old_pending'' 0 Pending (Some 0),
        (example_row ''new_failed'' 0 Failed (Some 4))\<lparr>p_created_at := 500000000\<rparr>]"
  using cleanupOldPosts_local_days [of "example_scheduler
         [example_row ''old_posted'' 0 Posted (Some 0),
          example_row ''old_pending'' 0 Pending (Some 0),
          (example_row ''new_failed'' 0 Failed (Some 4))\<lparr>p_created_at := 500000000\<rparr>]"
       "\<lparr>posts = [example_row ''old_posted'' 0 Posted (Some 0),
                   example_row ''old_pending'' 0 Pending (Some 0),
                   (example_row ''new_failed'' 0 Failed (Some 4))\<lparr>p_created_at := 500000000\<rparr>],
           post_analytics = []\<rparr>" utc_zone 3000000000]
  by (simp add: example_scheduler_def example_row_def cleanupOldPosts_def thirtyDaysAgo_def
      utc_zone_def iso_key_def four_digit_year_def)

section \<open>Deleting a scheduled item\<close>

text \<open>
  C6. With identifiers unique in the store (the primary key), \<^verbatim>\<open>deleteScheduledPost\<close>
  returns true if and only if the item exists with status \<open>pending\<close>; then the item is
  gone afterwards and every other item is as before. When it returns false the whole
  state is unchanged; in particular on a \<open>posted\<close> or \<open>failed\<close> item it returns false
  and leaves the record as it is.
\<close>

theorem deleteScheduledPost_pending_only:
  assumes "primary_key s"
  shows "fst (deleteScheduledPost i s) =
           (\<exists>p. getPostById s i = Some p \<and> sp_status p = Pending)
     \<and> (fst (deleteScheduledPost i s) \<longrightarrow>
          getPostById (snd (deleteScheduledPost i s)) i = None \<and>
          (\<forall>j. j \<noteq> i \<longrightarrow> getPostById (snd (deleteScheduledPost i s)) j = getPostById s j))
     \<and> (\<not> fst (deleteScheduledPost i s) \<longrightarrow> snd (deleteScheduledPost i s) = s)
     \<and> (\<forall>p. getPostById s i = Some p \<and> (sp_status p = Posted \<or> sp_status p = Failed) \<longrightarrow>
          deleteScheduledPost i s = (False, s))"
proof (cases "db s")
  case None
  then show ?thesis
    by (simp add: deleteScheduledPost_def getPostById_def)
next
  case (Some d)
  let ?hit = "\<lambda>r. p_id r = i \<and> p_status r = Pending"
  let ?s' = "snd (deleteScheduledPost i s)"
  have dist: "distinct (map p_id (posts d))"
    using assms Some by (simp add: primary_key_def)
  have res: "fst (deleteScheduledPost i s) = (\<exists>r \<in> set (posts d). ?hit r)"
    using Some by (auto simp: deleteScheduledPost_def filter_empty_conv)
  have look: "getPostById s j = map_option row_to_post (find (\<lambda>r. p_id r = j) (posts d))" for j
    using Some by (simp add: getPostById_def)
  have c1: "fst (deleteScheduledPost i s) =
           (\<exists>p. getPostById s i = Some p \<and> sp_status p = Pending)"
  proof -
    have "(\<exists>p. getPostById s i = Some p \<and> sp_status p = Pending) =
          (\<exists>r. find (\<lambda>r. p_id r = i) (posts d) = Some r \<and> p_status r = Pending)"
      by (auto simp: look row_to_post_def)
    also have "\<dots> = (\<exists>r \<in> set (posts d). ?hit r)"
      using find_id_iff [OF dist] by auto
    finally show ?thesis using res by simp
  qed
  have after: "db ?s' = Some (d\<lparr>posts := filter (\<lambda>r. \<not> ?hit r) (posts d)\<rparr>)"
    using Some by (simp add: deleteScheduledPost_def)
  have look': "getPostById ?s' j =
      map_option row_to_post (find (\<lambda>r. p_id r = j) (filter (\<lambda>r. \<not> ?hit r) (posts d)))" for j
    using after by (simp add: getPostById_def)
  have c2: "getPostById ?s' i = None" if "fst (deleteScheduledPost i s)"
  proof -
    from that res obtain r where r: "r \<in> set (posts d)" "p_id r = i" "p_status r = Pending"
      by blast
    have "x \<in> set (posts d) \<Longrightarrow> p_id x = i \<Longrightarrow> ?hit x" for x
      using same_id_same_row [OF dist r(1)] r by auto
    then have "find (\<lambda>r. p_id r = i) (filter (\<lambda>r. \<not> ?hit r) (posts d)) = None"
      by (auto simp: find_None_iff)
    then show ?thesis by (simp add: look')
  qed
  have c3: "getPostById ?s' j = getPostById s j" if "j \<noteq> i" for j
  proof -
    have "find (\<lambda>r. p_id r = j) (filter (\<lambda>r. \<not> ?hit r) (posts d)) =
          find (\<lambda>r. p_id r = j) (posts d)"
      by (rule find_filter_keep) (use that in auto)
    then show ?thesis by (simp only: look look')
  qed
  have c4: "?s' = s" if "\<not> fst (deleteScheduledPost i s)"
  proof -
    have "filter (\<lambda>r. \<not> ?hit r) (posts d) = posts d"
      using that res by (auto simp: filter_id_conv)
    then show ?thesis using Some by (simp add: deleteScheduledPost_def)
  qed
  have c5: "deleteScheduledPost i s = (False, s)"
    if "getPostById s i = Some p" "sp_status p = Posted \<or> sp_status p = Failed" for p
  proof -
    have "\<not> fst (deleteScheduledPost i s)"
      using that c1 by auto
    then show ?thesis using c4 by (simp add: prod_eq_iff)
  qed
  show ?thesis using c1 c2 c3 c4 c5 by blast
qed

theorem deleteScheduledPost_pending_only_witness:
  "primary_key (example_scheduler
       [example_row ''a'' 10 Pending (Some 0), example_row ''b'' 10 Posted (Some 0)])
   \<and> deleteScheduledPost ''a'' (example_scheduler
       [example_row ''a'' 10 Pending (Some 0), example_row ''b'' 10 Posted (Some 0)]) =
     (True, example_scheduler [example_row ''b'' 10 Posted (Some 0)])
   \<and> getPostById (example_scheduler
       [example_row ''a'' 10 Pending (Some 0), example_row ''b'' 10 Posted (Some 0)]) ''b'' =
     Some (row_to_post (example_row ''b'' 10 Posted (Some 0)))
   \<and> deleteScheduledPost ''b'' (example_scheduler
       [example_row ''a'' 10 Pending (Some 0), example_row ''b'' 10 Posted (Some 0)]) =
     (False, example_scheduler
       [example_row ''a'' 10 Pending (Some 0), example_row ''b'' 10 Posted (Some 0)])"
  using deleteScheduledPost_pending_only [of "example_scheduler
       [example_row ''a'' 10 Pending (Some 0), example_row ''b'' 10 Posted (Some 0)]" "''a''"]
    deleteScheduledPost_pending_only [of "example_scheduler
       [example_row ''a'' 10 Pending (Some 0), example_row ''b'' 10 Posted (Some 0)]" "''b''"]
  by (simp add: example_scheduler_def example_row_def deleteScheduledPost_def primary_key_def
      getPostById_def)

section \<open>The statistics of the analytics query\<close>

text \<open>
  C10. Whatever item identifier \<^verbatim>\<open>getAnalytics\<close> is called with, and also with none, the
  statistics it returns are the same: with the database open they are the number of all
  rows of \<^verbatim>\<open>posts\<close> and, of all rows, how many are posted, pending and failed (NULL
  rather than 0 when the table is empty); without a database there are none. A
  non-empty identifier restricts only the events: every event returned then belongs to
  that item.
\<close>

theorem getAnalytics_stats_unfiltered:
  "r_stats (getAnalytics postId s) = r_stats (getAnalytics None s)
   \<and> (\<forall>d. db s = Some d \<longrightarrow>
        r_stats (getAnalytics postId s) =
          Some \<lparr>total_posts = length (posts d),
                published = (if posts d = [] then None
                             else Some (length (filter (\<lambda>r. p_status r = Posted) (posts d)))),
                pending = (if posts d = [] then None
                           else Some (length (filter (\<lambda>r. p_status r = Pending) (posts d)))),
                failed = (if posts d = [] then None
                          else Some (length (filter (\<lambda>r. p_status r = Failed) (posts d))))\<rparr>)
   \<and> (db s = None \<longrightarrow> r_stats (getAnalytics postId s) = None)
   \<and> (\<forall>i j. postId = Some i \<and> i \<noteq> [] \<and> j \<in> set (r_analytics (getAnalytics postId s))
          \<longrightarrow> a_post_id (j_event j) = i)"
proof -
  have a: "r_stats (getAnalytics postId s) = r_stats (getAnalytics None s)"
    by (simp add: getAnalytics_def split: option.splits)
  have b: "r_stats (getAnalytics postId s) =
          Some \<lparr>total_posts = length (posts d),
                published = (if posts d = [] then None
                             else Some (length (filter (\<lambda>r. p_status r = Posted) (posts d)))),
                pending = (if posts d = [] then None
                           else Some (length (filter (\<lambda>r. p_status r = Pending) (posts d)))),
                failed = (if posts d = [] then None
                          else Some (length (filter (\<lambda>r. p_status r = Failed) (posts d))))\<rparr>"
    if "db s = Some d" for d
    using that by (simp add: getAnalytics_def stats_query_def sql_sum_def sum_list_count)
  have c: "r_stats (getAnalytics postId s) = None" if "db s = None"
    using that by (simp add: getAnalytics_def)
  have e: "a_post_id (j_event j) = i"
    if "postId = Some i" "i \<noteq> []" "j \<in> set (r_analytics (getAnalytics postId s))" for i j
  proof (cases "db s")
    case None
    with that show ?thesis by (simp add: getAnalytics_def)
  next
    case (Some d)
    with that(3) have "j \<in> set (filter (\<lambda>j. case postId of
                              None \<Rightarrow> True
                            | Some i \<Rightarrow> i = [] \<or> a_post_id (j_event j) = i)
                  (join_posts (post_analytics d) (posts d)))"
      by (auto simp: getAnalytics_def dest!: in_set_takeD)
    with that(1,2) show ?thesis by simp
  qed
  show ?thesis using a b c e by blast
qed

theorem getAnalytics_stats_unfiltered_witness:
  "db example_analytics_store \<noteq> None
   \<and> r_stats (getAnalytics (Some ''a'') example_analytics_store) =
       Some \<lparr>total_posts = 2, published = Some 1, pending = Some 1, failed = Some 0\<rparr>
   \<and> r_stats (getAnalytics None example_analytics_store) =
       Some \<lparr>total_posts = 2, published = Some 1, pending = Some 1, failed = Some 0\<rparr>
   \<and> map (\<lambda>j. a_id (j_event j)) (r_analytics (getAnalytics (Some ''a'') example_analytics_store)) = [1]
   \<and> map (\<lambda>j. a_id (j_event j)) (r_analytics (getAnalytics None example_analytics_store)) = [3, 2, 1]"
  using getAnalytics_stats_unfiltered [of "Some ''a''" example_analytics_store]
  by (simp add: example_analytics_store_def getAnalytics_def join_posts_def example_row_def
      stats_query_def sql_sum_def)

section \<open>Scheduling an item\<close>

text \<open>
  C5, as the code has it. The claim that scheduling fails with a validation error when
  the content is empty or the channel is unknown does not hold: on a new database,
  scheduling the empty content returns the identifier and stores the item, and so does
  scheduling for the unknown channel \<^verbatim>\<open>mastodon\<close>.
\<close>

theorem schedulePost_empty_content_counterexample:
  "schedulePost ''post_1'' 1000
     \<lparr>req_content = Text '''', req_scheduledFor = None, req_platform = Text Twitter,
      req_tags = None\<rparr>
     (initDatabase createTables constructor) =
   (Inr ''post_1'',
     \<lparr>db = Some
        \<lparr>posts = [\<lparr>p_id = ''post_1'', p_content = '''', p_scheduled_for = 1000,
                   p_status = Pending, p_created_at = 1000, p_platform = Twitter,
                   p_tags = None, p_published_at = None, p_error_message = None,
                   p_retry_count = Some 0\<rparr>],
         post_analytics = [\<lparr>a_id = 1, a_post_id = ''post_1'', a_event_type = ''scheduled'',
                            a_event_data = Some (ScheduledForData 1000), a_created_at = 1000\<rparr>]\<rparr>,
      timers = []\<rparr>)
   \<and> schedulePost ''post_2'' 1000
     \<lparr>req_content = Text ''hello'', req_scheduledFor = None, req_platform = Text ''mastodon'',
      req_tags = None\<rparr>
     (initDatabase createTables constructor) =
   (Inr ''post_2'',
     \<lparr>db = Some
        \<lparr>posts = [\<lparr>p_id = ''post_2'', p_content = ''hello'', p_scheduled_for = 1000,
                   p_status = Pending, p_created_at = 1000, p_platform = ''mastodon'',
                   p_tags = None, p_published_at = None, p_error_message = None,
                   p_retry_count = Some 0\<rparr>],
         post_analytics = [\<lparr>a_id = 1, a_post_id = ''post_2'', a_event_type = ''scheduled'',
                            a_event_data = Some (ScheduledForData 1000), a_created_at = 1000\<rparr>]\<rparr>,
      timers = []\<rparr>)"
  by (simp add: schedulePost_def sql_text_def has_slice_def initDatabase_def createTables_def
      constructor_def logAnalytics_def next_id_def)

text \<open>
  C5, amended. \<^verbatim>\<open>schedulePost\<close> validates nothing: empty content and an unknown channel
  are taken like any other. For every request whose content and channel are strings,
  whatever strings, when the database is open, the scheduled time is not an Invalid Date
  and the generated identifier is not yet in the store, it appends one row with the
  generated identifier, the content and the channel of the request, status \<open>pending\<close>,
  retry count 0, no published time and no error message, appends one \<open>scheduled\<close>
  event, and returns the identifier.
\<close>

theorem schedulePost_accepts_any_text:
  assumes "db s = Some d"
    and "req_content postData = Text content"
    and "req_platform postData = Text channel"
    and "req_scheduledFor postData \<noteq> Some InvalidDate"
    and "postId \<notin> p_id ` set (posts d)"
  shows "\<exists>d' r. schedulePost postId now postData s = (Inr postId, s\<lparr>db := Some d'\<rparr>)
     \<and> posts d' = posts d @ [r]
     \<and> p_id r = postId \<and> p_content r = content \<and> p_platform r = channel
     \<and> p_status r = Pending \<and> p_retry_count r = Some 0
     \<and> p_published_at r = None \<and> p_error_message r = None
     \<and> p_created_at r = now
     \<and> p_scheduled_for r =
         (case req_scheduledFor postData of Some (ParsesTo t) \<Rightarrow> t | _ \<Rightarrow> now)
     \<and> post_analytics d' = post_analytics d @
         [\<lparr>a_id = next_id (post_analytics d), a_post_id = postId,
           a_event_type = ''scheduled'',
           a_event_data = Some (ScheduledForData (p_scheduled_for r)),
           a_created_at = now\<rparr>]"
proof -
  let ?t = "case req_scheduledFor postData of Some (ParsesTo t) \<Rightarrow> t | _ \<Rightarrow> now"
  let ?r = "\<lparr>p_id = postId, p_content = content, p_scheduled_for = ?t, p_status = Pending,
             p_created_at = now, p_platform = channel, p_tags = req_tags postData,
             p_published_at = None, p_error_message = None, p_retry_count = Some 0\<rparr>"
  let ?d' = "d\<lparr>posts := posts d @ [?r],
               post_analytics := post_analytics d @
                 [\<lparr>a_id = next_id (post_analytics d), a_post_id = postId,
                   a_event_type = ''scheduled'', a_event_data = Some (ScheduledForData ?t),
                   a_created_at = now\<rparr>]\<rparr>"
  have "schedulePost postId now postData s = (Inr postId, s\<lparr>db := Some ?d'\<rparr>)"
  proof (cases "req_scheduledFor postData")
    case None
    with assms show ?thesis
      by (simp add: schedulePost_def sql_text_def has_slice_def logAnalytics_def)
  next
    case (Some dt)
    with assms(4) obtain t where "dt = ParsesTo t"
      by (cases dt) auto
    with Some assms show ?thesis
      by (simp add: schedulePost_def sql_text_def has_slice_def logAnalytics_def)
  qed
  then show ?thesis
    by (intro exI [of _ ?d'] exI [of _ ?r]) simp
qed

theorem schedulePost_accepts_any_text_witness:
  "db example_scheduled \<noteq> None
   \<and> schedulePost ''post_2'' 5
       \<lparr>req_content = Text '''', req_scheduledFor = None, req_platform = Text ''mastodon'',
        req_tags = None\<rparr> example_scheduled =
     (Inr ''post_2'',
       \<lparr>db = Some
          \<lparr>posts = [\<lparr>p_id = ''post_1'', p_content = ''bora codar?'', p_scheduled_for = 0,
                     p_status = Pending, p_created_at = 0, p_platform = Twitter,
                     p_tags = Some [''daily''], p_published_at = None, p_error_message = None,
                     p_retry_count = Some 0\<rparr>,
                    \<lparr>p_id = ''post_2'', p_content = '''', p_scheduled_for = 5,
                     p_status = Pending, p_created_at = 5, p_platform = ''mastodon'',
                     p_tags = None, p_published_at = None, p_error_message = None,
                     p_retry_count = Some 0\<rparr>],
           post_analytics =
             [\<lparr>a_id = 1, a_post_id = ''post_1'', a_event_type = ''scheduled'',
                a_event_data = Some (ScheduledForData 0), a_created_at = 0\<rparr>,
              \<lparr>a_id = 2, a_post_id = ''post_2'', a_event_type = ''scheduled'',
                a_event_data = Some (ScheduledForData 5), a_created_at = 5\<rparr>]\<rparr>,
        timers = []\<rparr>)"
  using schedulePost_accepts_any_text [of example_scheduled
      "\<lparr>posts = [\<lparr>p_id = ''post_1'', p_content = ''bora codar?'', p_scheduled_for = 0,
                   p_status = Pending, p_created_at = 0, p_platform = Twitter,
                   p_tags = Some [''daily''], p_published_at = None, p_error_message = None,
                   p_retry_count = Some 0\<rparr>],
         post_analytics = [\<lparr>a_id = 1, a_post_id = ''post_1'', a_event_type = ''scheduled'',
                            a_event_data = Some (ScheduledForData 0), a_created_at = 0\<rparr>]\<rparr>"
      "\<lparr>req_content = Text '''', req_scheduledFor = None, req_platform = Text ''mastodon'',
        req_tags = None\<rparr>" "''''" "''mastodon''" "''post_2''" 5]
  by (simp add: example_scheduled_eq schedulePost_def sql_text_def has_slice_def
      logAnalytics_def next_id_def)

section \<open>Channels without an adapter\<close>

text \<open>
  C4. For an item whose channel is \<open>linkedin\<close> or \<open>instagram\<close> a publish attempt does
  what the \<open>published\<close> signal does, whatever the Twitter client would have answered,
  and it is the same state a Twitter item reaches when its delivery succeeds: with the
  database open the item's row gets status \<open>posted\<close> and published time \<open>now\<close>, and
  one \<open>published\<close> event is appended.
\<close>

theorem publishPost_unimplemented_channel:
  assumes "sp_platform post = Linkedin \<or> sp_platform post = Instagram"
  shows "publishPost now outcome post s = emit now (PostPublished post) s
     \<and> publishPost now outcome post s =
         publishPost now TweetOk (post\<lparr>sp_platform := Twitter\<rparr>) s
     \<and> (\<forall>d. db s = Some d \<longrightarrow>
          publishPost now outcome post s =
            s\<lparr>db := Some (d\<lparr>posts :=
                   map (\<lambda>r. if p_id r = sp_id post
                             then r\<lparr>p_status := Posted, p_error_message := None,
                                    p_published_at := Some now\<rparr>
                             else r) (posts d),
                 post_analytics := post_analytics d @
                   [\<lparr>a_id = next_id (post_analytics d), a_post_id = sp_id post,
                     a_event_type = ''published'', a_event_data = None,
                     a_created_at = now\<rparr>]\<rparr>)\<rparr>)
     \<and> (\<forall>p. getPostById s (sp_id post) = Some p \<longrightarrow>
          getPostById (publishPost now outcome post s) (sp_id post) =
            Some (p\<lparr>sp_status := Posted, sp_publishedAt := Some now,
                    sp_errorMessage := None\<rparr>))"
proof -
  have a: "publishPost now outcome post s = emit now (PostPublished post) s"
    using assms by (auto simp: publishPost_def deliver_def simp del: emit.simps)
  have "publishPost now TweetOk (post\<lparr>sp_platform := Twitter\<rparr>) s =
        emit now (PostPublished (post\<lparr>sp_platform := Twitter\<rparr>)) s"
    by (simp add: publishPost_def deliver_def publishToTwitter_def del: emit.simps)
  then have b: "publishPost now outcome post s =
         publishPost now TweetOk (post\<lparr>sp_platform := Twitter\<rparr>) s"
    by (simp add: a)
  have c: "publishPost now outcome post s =
            s\<lparr>db := Some (d\<lparr>posts :=
                   map (\<lambda>r. if p_id r = sp_id post
                             then r\<lparr>p_status := Posted, p_error_message := None,
                                    p_published_at := Some now\<rparr>
                             else r) (posts d),
                 post_analytics := post_analytics d @
                   [\<lparr>a_id = next_id (post_analytics d), a_post_id = sp_id post,
                     a_event_type = ''published'', a_event_data = None,
                     a_created_at = now\<rparr>]\<rparr>)\<rparr>" if "db s = Some d" for d
    unfolding a by (rule emit_published [OF that])
  have e: "getPostById (publishPost now outcome post s) (sp_id post) =
            Some (p\<lparr>sp_status := Posted, sp_publishedAt := Some now,
                    sp_errorMessage := None\<rparr>)"
    if "getPostById s (sp_id post) = Some p" for p
    unfolding a using that by (rule getPostById_published)
  show ?thesis using a b c e by blast
qed

theorem publishPost_unimplemented_channel_witness:
  "sp_platform ((tick_post (example_row ''a'' 10 Pending (Some 0)))\<lparr>sp_platform := Linkedin\<rparr>) =
     Linkedin
   \<and> publishPost 50 (TweetError None)
       ((tick_post (example_row ''a'' 10 Pending (Some 0)))\<lparr>sp_platform := Linkedin\<rparr>)
       (example_scheduler [(example_row ''a'' 10 Pending (Some 0))\<lparr>p_platform := Linkedin\<rparr>]) =
     \<lparr>db = Some
        \<lparr>posts = [(example_row ''a'' 10 Posted (Some 0))
                    \<lparr>p_platform := Linkedin, p_published_at := Some 50\<rparr>],
         post_analytics = [\<lparr>a_id = 1, a_post_id = ''a'', a_event_type = ''published'',
                            a_event_data = None, a_created_at = 50\<rparr>]\<rparr>,
      timers = []\<rparr>"
  using publishPost_unimplemented_channel [of
      "(tick_post (example_row ''a'' 10 Pending (Some 0)))\<lparr>sp_platform := Linkedin\<rparr>"
      50 "TweetError None"
      "example_scheduler [(example_row ''a'' 10 Pending (Some 0))\<lparr>p_platform := Linkedin\<rparr>]"]
  by (simp add: example_scheduler_def example_row_def tick_post_def logAnalytics_def
      updatePostStatus_def set_row_def next_id_def)

section \<open>The failure branch of an attempt\<close>

text \<open>
  C2. When the delivery of an attempt fails and the item is in the store, the decision
  rests on the retry count of the stored row (a NULL counts as 0), not on the count of
  the in-memory copy. Below 3: nothing changes in \<^verbatim>\<open>posts\<close>, one \<open>retry\<close> event with
  attempt number stored count + 1 is appended, and a timer is set that, from 300000 ms
  (five minutes) after \<open>now\<close> and not before, runs the same publish flow on the same
  item. At 3 or more: the row gets status \<open>failed\<close>, its retry count goes up by
  exactly one, the error message is recorded, one \<open>failed\<close> event is appended, and no
  timer is set.
\<close>

theorem publishPost_failure_policy:
  assumes "db s = Some d"
    and "find (\<lambda>x. p_id x = sp_id post) (posts d) = Some r"
    and "deliver outcome post = Inl err"
  shows "((case p_retry_count r of None \<Rightarrow> 0 | Some n \<Rightarrow> n) < 3 \<longrightarrow>
          publishPost now outcome post s =
            s\<lparr>db := Some (d\<lparr>post_analytics := post_analytics d @
                   [\<lparr>a_id = next_id (post_analytics d), a_post_id = sp_id post,
                     a_event_type = ''retry'',
                     a_event_data = Some (AttemptData
                       ((case p_retry_count r of None \<Rightarrow> 0 | Some n \<Rightarrow> n) + 1)),
                     a_created_at = now\<rparr>]\<rparr>),
              timers := timers s @ [(now + 300000, post)]\<rparr>
          \<and> (\<forall>t again. now + 300000 \<le> t \<longrightarrow>
                fireTimer (length (timers s)) t again (publishPost now outcome post s) =
                  publishPost t again post
                    ((publishPost now outcome post s)\<lparr>timers := timers s\<rparr>))
          \<and> (\<forall>t again. t < now + 300000 \<longrightarrow>
                fireTimer (length (timers s)) t again (publishPost now outcome post s) =
                  publishPost now outcome post s))
     \<and> (\<forall>n. p_retry_count r = Some n \<and> 3 \<le> n \<longrightarrow>
          publishPost now outcome post s =
            s\<lparr>db := Some (d\<lparr>posts :=
                   map (\<lambda>x. if p_id x = sp_id post
                             then x\<lparr>p_status := Failed,
                                    p_error_message := Some (message_or_default err),
                                    p_retry_count := map_option (\<lambda>n. n + 1) (p_retry_count x)\<rparr>
                             else x) (posts d),
                 post_analytics := post_analytics d @
                   [\<lparr>a_id = next_id (post_analytics d), a_post_id = sp_id post,
                     a_event_type = ''failed'', a_event_data = Some (ErrorData err),
                     a_created_at = now\<rparr>]\<rparr>)\<rparr>
          \<and> getPostById (publishPost now outcome post s) (sp_id post) =
              Some ((row_to_post r)\<lparr>sp_status := Failed,
                      sp_errorMessage := Some (message_or_default err),
                      sp_retry_count := Some (n + 1)\<rparr>))
     \<and> db (publishPost now outcome (post\<lparr>sp_retry_count := c\<rparr>) s) =
         db (publishPost now outcome post s)"
proof -
  let ?count = "case p_retry_count r of None \<Rightarrow> 0 | Some n \<Rightarrow> n"
  have cur: "getPostById s (sp_id post) = Some (row_to_post r)"
    using assms(1,2) by (simp add: getPostById_def)
  have cnt: "retry_count_or_0 (row_to_post r) = ?count"
    by (simp add: retry_count_or_0_def row_to_post_def)
  have r_in: "r \<in> set (posts d)" "p_id r = sp_id post"
    using find_id_Some [OF assms(2)] by simp_all
  have low: "publishPost now outcome post s =
            s\<lparr>db := Some (d\<lparr>post_analytics := post_analytics d @
                   [\<lparr>a_id = next_id (post_analytics d), a_post_id = sp_id post,
                     a_event_type = ''retry'',
                     a_event_data = Some (AttemptData (?count + 1)),
                     a_created_at = now\<rparr>]\<rparr>),
              timers := timers s @ [(now + 300000, post)]\<rparr>"
    if "?count < 3"
    using that assms(1,3)
    by (simp add: publishPost_def cur cnt emit_retrying [OF assms(1)] setTimeout_def
        del: emit.simps)
  have high: "publishPost now outcome post s =
            s\<lparr>db := Some (d\<lparr>posts :=
                   map (\<lambda>x. if p_id x = sp_id post
                             then x\<lparr>p_status := Failed,
                                    p_error_message := Some (message_or_default err),
                                    p_retry_count := map_option (\<lambda>n. n + 1) (p_retry_count x)\<rparr>
                             else x) (posts d),
                 post_analytics := post_analytics d @
                   [\<lparr>a_id = next_id (post_analytics d), a_post_id = sp_id post,
                     a_event_type = ''failed'', a_event_data = Some (ErrorData err),
                     a_created_at = now\<rparr>]\<rparr>)\<rparr>"
    if "p_retry_count r = Some n" "3 \<le> n" for n
    using that assms(3)
    by (simp add: publishPost_def cur cnt emit_failed [OF assms(1)] del: emit.simps)
  have stored: "getPostById (publishPost now outcome post s) (sp_id post) =
              Some ((row_to_post r)\<lparr>sp_status := Failed,
                      sp_errorMessage := Some (message_or_default err),
                      sp_retry_count := Some (n + 1)\<rparr>)"
    if "p_retry_count r = Some n" "3 \<le> n" for n
    using that r_in(2)
    by (simp add: high [OF that] getPostById_def find_map_update assms(2) row_to_post_def)
  have fire: "fireTimer (length (timers s)) t again (publishPost now outcome post s) =
                  publishPost t again post
                    ((publishPost now outcome post s)\<lparr>timers := timers s\<rparr>)"
    if "?count < 3" "now + 300000 \<le> t" for t again
    by (rule fireTimer_last [OF _ that(2)]) (simp add: low [OF that(1)])
  have wait: "fireTimer (length (timers s)) t again (publishPost now outcome post s) =
                  publishPost now outcome post s"
    if "?count < 3" "t < now + 300000" for t again
    by (rule fireTimer_early [OF _ that(2)]) (simp add: low [OF that(1)])
  have dl: "deliver outcome (post\<lparr>sp_retry_count := c\<rparr>) = Inl err"
    using assms(3) by (auto simp: deliver_def publishToTwitter_def split: if_splits)
  have indep: "db (publishPost now outcome (post\<lparr>sp_retry_count := c\<rparr>) s) =
         db (publishPost now outcome post s)"
    using assms(1,3) dl
    by (simp add: publishPost_def cur cnt emit_failed [OF assms(1)]
        emit_retrying [OF assms(1)] setTimeout_def del: emit.simps)
  show ?thesis using low high stored fire wait indep by blast
qed

theorem publishPost_failure_policy_witness:
  "publishPost 50 (TweetError (Some ''503'')) (tick_post (example_row ''a'' 10 Pending (Some 0)))
     (example_scheduler
        [example_row ''a'' 10 Pending (Some 1), example_row ''b'' 10 Pending (Some 3)]) =
     \<lparr>db = Some
        \<lparr>posts = [example_row ''a'' 10 Pending (Some 1), example_row ''b'' 10 Pending (Some 3)],
         post_analytics = [\<lparr>a_id = 1, a_post_id = ''a'', a_event_type = ''retry'',
                            a_event_data = Some (AttemptData 2), a_created_at = 50\<rparr>]\<rparr>,
      timers = [(300050, tick_post (example_row ''a'' 10 Pending (Some 0)))]\<rparr>
   \<and> publishPost 50 (TweetError (Some ''503'')) (tick_post (example_row ''b'' 10 Pending (Some 0)))
     (example_scheduler
        [example_row ''a'' 10 Pending (Some 1), example_row ''b'' 10 Pending (Some 3)]) =
     \<lparr>db = Some
        \<lparr>posts = [example_row ''a'' 10 Pending (Some 1),
                  (example_row ''b'' 10 Failed (Some 4))\<lparr>p_error_message := Some ''503''\<rparr>],
         post_analytics = [\<lparr>a_id = 1, a_post_id = ''b'', a_event_type = ''failed'',
                            a_event_data = Some (ErrorData (Some ''503'')), a_created_at = 50\<rparr>]\<rparr>,
      timers = []\<rparr>"
  using publishPost_failure_policy [of
      "example_scheduler
        [example_row ''a'' 10 Pending (Some 1), example_row ''b'' 10 Pending (Some 3)]"
      "\<lparr>posts = [example_row ''a'' 10 Pending (Some 1), example_row ''b'' 10 Pending (Some 3)],
        post_analytics = []\<rparr>"
      "tick_post (example_row ''a'' 10 Pending (Some 0))"
      "example_row ''a'' 10 Pending (Some 1)" "TweetError (Some ''503'')" "Some ''503''" 50]
    publishPost_failure_policy [of
      "example_scheduler
        [example_row ''a'' 10 Pending (Some 1), example_row ''b'' 10 Pending (Some 3)]"
      "\<lparr>posts = [example_row ''a'' 10 Pending (Some 1), example_row ''b'' 10 Pending (Some 3)],
        post_analytics = []\<rparr>"
      "tick_post (example_row ''b'' 10 Pending (Some 0))"
      "example_row ''b'' 10 Pending (Some 3)" "TweetError (Some ''503'')" "Some ''503''" 50]
  by (simp add: example_scheduler_def example_row_def tick_post_def deliver_def
      publishToTwitter_def message_or_default_def next_id_def)

section \<open>A successful attempt\<close>

text \<open>
  C7. In every reachable state a row has a published time if and only if its status is
  \<open>posted\<close>. And in any state with the database open, an attempt whose delivery
  succeeds appends exactly one \<open>published\<close> event, sets no timer, keeps the rows of
  all other items, and turns the item, when the store holds it, into the same item with
  status \<open>posted\<close>, published time \<open>now\<close> and no error message.
\<close>

theorem successful_publish_posted:
  "(reachable s \<longrightarrow>
      (\<forall>d r. db s = Some d \<and> r \<in> set (posts d) \<longrightarrow>
          (p_published_at r \<noteq> None) = (p_status r = Posted)))
   \<and> (\<forall>d. db s = Some d \<and> deliver outcome post = Inr () \<longrightarrow>
        (\<exists>d'. db (publishPost now outcome post s) = Some d'
           \<and> post_analytics d' = post_analytics d @
               [\<lparr>a_id = next_id (post_analytics d), a_post_id = sp_id post,
                 a_event_type = ''published'', a_event_data = None, a_created_at = now\<rparr>]
           \<and> map p_id (posts d') = map p_id (posts d))
        \<and> timers (publishPost now outcome post s) = timers s
        \<and> (\<forall>p. getPostById s (sp_id post) = Some p \<longrightarrow>
              getPostById (publishPost now outcome post s) (sp_id post) =
                Some (p\<lparr>sp_status := Posted, sp_publishedAt := Some now,
                        sp_errorMessage := None\<rparr>))
        \<and> (\<forall>i. i \<noteq> sp_id post \<longrightarrow>
              getPostById (publishPost now outcome post s) i = getPostById s i))"
proof -
  have a: "(p_published_at r \<noteq> None) = (p_status r = Posted)"
    if "reachable s" "db s = Some d" "r \<in> set (posts d)" for d r
    using reachable_inv [OF that(1)] that(2,3)
    by (simp add: engine_inv_def list_all_iff row_ok_def)
  have b: "(\<exists>d'. db (publishPost now outcome post s) = Some d'
           \<and> post_analytics d' = post_analytics d @
               [\<lparr>a_id = next_id (post_analytics d), a_post_id = sp_id post,
                 a_event_type = ''published'', a_event_data = None, a_created_at = now\<rparr>]
           \<and> map p_id (posts d') = map p_id (posts d))
        \<and> timers (publishPost now outcome post s) = timers s"
    if "db s = Some d" "deliver outcome post = Inr ()" for d
    using that(2)
    by (simp add: publishPost_def emit_published [OF that(1)] map_update_keeps_ids
        del: emit.simps)
  have c: "getPostById (publishPost now outcome post s) (sp_id post) =
                Some (p\<lparr>sp_status := Posted, sp_publishedAt := Some now,
                        sp_errorMessage := None\<rparr>)"
    if "deliver outcome post = Inr ()" "getPostById s (sp_id post) = Some p" for p
    using that by (simp add: publishPost_def getPostById_published del: emit.simps)
  have e: "getPostById (publishPost now outcome post s) i = getPostById s i"
    if "deliver outcome post = Inr ()" "i \<noteq> sp_id post" for i
    using that by (simp add: publishPost_def getPostById_published_other del: emit.simps)
  show ?thesis using a b c e by blast
qed

theorem successful_publish_posted_witness:
  "reachable (tick 60000 (\<lambda>post. TweetOk) example_scheduled)
   \<and> db (tick 60000 (\<lambda>post. TweetOk) example_scheduled) =
     Some \<lparr>posts = [\<lparr>p_id = ''post_1'', p_content = ''bora codar?'', p_scheduled_for = 0,
                   p_status = Posted, p_created_at = 0, p_platform = Twitter,
                   p_tags = Some [''daily''], p_published_at = Some 60000,
                   p_error_message = None, p_retry_count = Some 0\<rparr>],
         post_analytics =
           [\<lparr>a_id = 1, a_post_id = ''post_1'', a_event_type = ''scheduled'',
              a_event_data = Some (ScheduledForData 0), a_created_at = 0\<rparr>,
            \<lparr>a_id = 2, a_post_id = ''post_1'', a_event_type = ''published'',
              a_event_data = None, a_created_at = 60000\<rparr>]\<rparr>
   \<and> deliver TweetOk (tick_post (example_row ''post_1'' 0 Pending (Some 0))) = Inr ()
   \<and> publishPost 60000 TweetOk (tick_post (example_row ''post_1'' 0 Pending (Some 0)))
       example_scheduled = tick 60000 (\<lambda>post. TweetOk) example_scheduled"
  using successful_publish_posted [of "tick 60000 (\<lambda>post. TweetOk) example_scheduled"
      TweetOk "tick_post (example_row ''post_1'' 0 Pending (Some 0))" 120000]
    successful_publish_posted [of example_scheduled
      TweetOk "tick_post (example_row ''post_1'' 0 Pending (Some 0))" 60000]
    example_published_reachable
  by (simp add: example_scheduled_eq tick_def dueQuery_def iso_key_def tick_post_def example_row_def
      publishPost_def deliver_def publishToTwitter_def logAnalytics_def updatePostStatus_def
      set_row_def next_id_def)

section \<open>An item that always fails\<close>

text \<open>
  C9. In every reachable state each row has retry count 0 and a status other than
  \<open>failed\<close>, and each \<open>retry\<close> event carries attempt number 1: no write of the
  program raises the count except the one that sets \<open>failed\<close>, and that one needs a
  count of 3. So for a Twitter item of the store whose delivery fails every time, after
  the first attempt and any number \<open>n\<close> of re-attempts by timer the rows are as they
  were (the item is still pending), the events have grown by \<open>n + 1\<close> \<open>retry\<close> events
  with attempt number 1, and the next timer is set: the attempts never end.
\<close>

theorem retry_count_never_grows:
  assumes "reachable s"
  shows "(\<forall>d r. db s = Some d \<and> r \<in> set (posts d) \<longrightarrow>
            p_retry_count r = Some 0 \<and> p_status r \<noteq> Failed)
     \<and> (\<forall>d a. db s = Some d \<and> a \<in> set (post_analytics d) \<and> a_event_type a = ''retry'' \<longrightarrow>
            a_event_data a = Some (AttemptData 1))
     \<and> (\<forall>d post. db s = Some d \<and> sp_id post \<in> p_id ` set (posts d) \<and>
            sp_platform post = Twitter \<longrightarrow>
          (\<forall>n now err. \<exists>d'.
              db (failing_run n now err post s) = Some d' \<and> posts d' = posts d \<and>
              map event_view (post_analytics d') =
                map event_view (post_analytics d) @
                replicate (Suc n) (sp_id post, ''retry'', Some (AttemptData 1)) \<and>
              timers (failing_run n now err post s) =
                timers s @ [(now + (int n + 1) * 300000, post)]))"
proof -
  note inv = reachable_inv [OF assms]
  have a: "p_retry_count r = Some 0 \<and> p_status r \<noteq> Failed"
    if "db s = Some d" "r \<in> set (posts d)" for d r
    using inv that by (simp add: engine_inv_def list_all_iff row_ok_def)
  have b: "a_event_data a = Some (AttemptData 1)"
    if "db s = Some d" "a \<in> set (post_analytics d)" "a_event_type a = ''retry''" for d a
    using inv that by (auto simp: engine_inv_def list_all_iff event_ok_def)
  have c: "\<exists>d'. db (failing_run n now err post s) = Some d' \<and> posts d' = posts d \<and>
              map event_view (post_analytics d') =
                map event_view (post_analytics d) @
                replicate (Suc n) (sp_id post, ''retry'', Some (AttemptData 1)) \<and>
              timers (failing_run n now err post s) =
                timers s @ [(now + (int n + 1) * 300000, post)]"
    if "db s = Some d" "sp_id post \<in> p_id ` set (posts d)" "sp_platform post = Twitter"
    for d post n now err
    using failing_run_state [OF inv that, of n now err] by blast
  show ?thesis using a b c by blast
qed

theorem retry_count_never_grows_witness:
  "reachable example_scheduled
   \<and> db (failing_run (Suc (Suc 0)) 60000 (Some ''503'')
         (tick_post (example_row ''post_1'' 0 Pending (Some 0))) example_scheduled) =
     Some \<lparr>posts = [\<lparr>p_id = ''post_1'', p_content = ''bora codar?'', p_scheduled_for = 0,
                   p_status = Pending, p_created_at = 0, p_platform = Twitter,
                   p_tags = Some [''daily''], p_published_at = None, p_error_message = None,
                   p_retry_count = Some 0\<rparr>],
         post_analytics =
           [\<lparr>a_id = 1, a_post_id = ''post_1'', a_event_type = ''scheduled'',
              a_event_data = Some (ScheduledForData 0), a_created_at = 0\<rparr>,
            \<lparr>a_id = 2, a_post_id = ''post_1'', a_event_type = ''retry'',
              a_event_data = Some (AttemptData 1), a_created_at = 60000\<rparr>,
            \<lparr>a_id = 3, a_post_id = ''post_1'', a_event_type = ''retry'',
              a_event_data = Some (AttemptData 1), a_created_at = 360000\<rparr>,
            \<lparr>a_id = 4, a_post_id = ''post_1'', a_event_type = ''retry'',
              a_event_data = Some (AttemptData 1), a_created_at = 660000\<rparr>]\<rparr>
   \<and> timers (failing_run (Suc (Suc 0)) 60000 (Some ''503'')
         (tick_post (example_row ''post_1'' 0 Pending (Some 0))) example_scheduled) =
     [(960000, tick_post (example_row ''post_1'' 0 Pending (Some 0)))]"
  using retry_count_never_grows [OF example_scheduled_reachable] example_scheduled_reachable
  by (simp add: example_scheduled_eq tick_post_def example_row_def fireTimer_def
      publishPost_def deliver_def publishToTwitter_def getPostById_def row_to_post_def
      retry_count_or_0_def setTimeout_def logAnalytics_def next_id_def)

section \<open>Three failed attempts\<close>

text \<open>
  C1 says that an item whose attempts all fail ends, after three of them, with status
  \<open>failed\<close>, retry count 3, an error message and the events \<open>retry(1)\<close>,
  \<open>retry(2)\<close>, \<open>failed\<close>. The program does otherwise: after the three failed
  attempts of the example the item is still \<open>pending\<close> with retry count 0 and no
  error message, its events after \<open>scheduled\<close> are three times \<open>retry(1)\<close>, and a
  timer for a fourth attempt is set.
\<close>

theorem three_failures_stay_pending:
  "db example_three_failures =
     Some \<lparr>posts = [\<lparr>p_id = ''post_1'', p_content = ''bora codar?'', p_scheduled_for = 0,
                   p_status = Pending, p_created_at = 0, p_platform = Twitter,
                   p_tags = Some [''daily''], p_published_at = None, p_error_message = None,
                   p_retry_count = Some 0\<rparr>],
         post_analytics =
           [\<lparr>a_id = 1, a_post_id = ''post_1'', a_event_type = ''scheduled'',
              a_event_data = Some (ScheduledForData 0), a_created_at = 0\<rparr>,
            \<lparr>a_id = 2, a_post_id = ''post_1'', a_event_type = ''retry'',
              a_event_data = Some (AttemptData 1), a_created_at = 60000\<rparr>,
            \<lparr>a_id = 3, a_post_id = ''post_1'', a_event_type = ''retry'',
              a_event_data = Some (AttemptData 1), a_created_at = 360000\<rparr>,
            \<lparr>a_id = 4, a_post_id = ''post_1'', a_event_type = ''retry'',
              a_event_data = Some (AttemptData 1), a_created_at = 660000\<rparr>]\<rparr>
   \<and> map fst (timers example_three_failures) = [960000]
   \<and> map (sp_id \<circ> snd) (timers example_three_failures) = [''post_1'']"
  by (simp add: example_three_failures_def example_scheduled_eq tick_def dueQuery_def iso_key_def
      tick_post_def always_failing_def fireTimer_def publishPost_def deliver_def
      publishToTwitter_def getPostById_def row_to_post_def retry_count_or_0_def
      setTimeout_def logAnalytics_def next_id_def)

end
